theory Spec2Isabelle
  imports Main
begin

section \<open>The OSTree importer steps of pulp\_ostree (plugins/importers/steps.py)\<close>

text \<open>
  The importer is a tree of steps: \<open>Main\<close> with the children \<open>Create\<close>, \<open>Pull\<close>,
  \<open>Add\<close> and \<open>Clean\<close>, and the helper class \<open>Remote\<close> that configures the OSTree remote
  from the importer configuration. The steps call four collaborators that are not part of
  the file: the OSTree library (\<open>lib.Repository\<close>, \<open>lib.Remote\<close>), python-gnupg (\<open>GPG\<close>),
  the operating system (\<open>os\<close>, \<open>open\<close>) and the Pulp platform (the conduit, the step host).
  The library, GPG and the conduit are parameters of the development (a record of outcome
  functions over an abstract collaborator state); the file system is a map from paths to
  nodes; every call the steps make to the library is appended to a trace.
\<close>

subsection \<open>Python values: exceptions, strings, paths\<close>

datatype error_code = OST0001 | OST0002 | OST0003

text \<open>
  The exceptions that can travel through the steps. \<open>LibError\<close> carries \<open>str(le)\<close>;
  \<open>PulpCodedException\<close> carries its error code and its keyword arguments; \<open>OSError\<close> and
  \<open>IOError\<close> carry their \<open>errno\<close>; \<open>OtherError\<close> stands for any exception of another class.
\<close>

datatype exn =
    LibError string
  | PulpCodedException error_code "(string \<times> string) list"
  | OSError nat
  | IOError nat
  | OtherError string

definition EEXIST :: nat where
  "EEXIST = 17"

definition ENOENT :: nat where
  "ENOENT = 2"

definition EISDIR :: nat where
  "EISDIR = 21"

definition ELOOP :: nat where
  "ELOOP = 40"

text \<open>\<open>str(n)\<close> of a Python integer: decimal digits, with a minus sign when negative.\<close>

definition digit_char :: "nat \<Rightarrow> char" where
  "digit_char d = ''0123456789'' ! (d mod 10)"

function str_nat :: "nat \<Rightarrow> string" where
  "str_nat n = (if n < 10 then [digit_char n] else str_nat (n div 10) @ [digit_char n])"
  by pat_completeness auto
termination
  by (relation "measure (\<lambda>n. n)") auto

definition str_int :: "int \<Rightarrow> string" where
  "str_int i = (if i < 0 then CHR ''-'' # str_nat (nat (- i)) else str_nat (nat i))"

text \<open>\<open>sep.join(parts)\<close> on a tuple of strings.\<close>

fun str_join :: "string \<Rightarrow> string list \<Rightarrow> string" where
  "str_join sep [] = []"
| "str_join sep [x] = x"
| "str_join sep (x # y # ys) = x @ sep @ str_join sep (y # ys)"

text \<open>
  \<open>os.path.join(a, *p)\<close> of posixpath: a component that starts with a slash replaces what
  was joined so far; otherwise it is appended, after a slash unless the path so far is
  empty or ends with one.
\<close>

definition join_step :: "string \<Rightarrow> string \<Rightarrow> string" where
  "join_step p b =
     (if b \<noteq> [] \<and> hd b = CHR ''/'' then b
      else if p = [] \<or> last p = CHR ''/'' then p @ b
      else p @ ''/'' @ b)"

definition os_path_join :: "string \<Rightarrow> string list \<Rightarrow> string" where
  "os_path_join a ps = foldl join_step a ps"

text \<open>
  \<open>os.path.dirname(p)\<close> of posixpath: everything up to the last slash, with trailing
  slashes stripped unless the head consists of slashes only.
\<close>

definition os_path_dirname :: "string \<Rightarrow> string" where
  "os_path_dirname p =
     (let head = rev (dropWhile (\<lambda>c. c \<noteq> CHR ''/'') (rev p))
      in if head \<noteq> [] \<and> \<not> list_all (\<lambda>c. c = CHR ''/'') head
         then rev (dropWhile (\<lambda>c. c = CHR ''/'') (rev head))
         else head)"

subsection \<open>The importer configuration\<close>

text \<open>
  \<open>config.get(key)\<close> returns \<open>None\<close> for a key that is not configured. The values have the
  types the Pulp importer configuration gives them: strings, a list of strings for the
  branches and the GPG keys, a boolean for the SSL validation flag, and an integer or a
  string for the proxy port (it goes through \<open>str(port)\<close>).
\<close>

datatype port = PortInt int | PortStr string

record config =
  KEY_FEED :: "string option"
  IMPORTER_CONFIG_KEY_BRANCHES :: "string list option"
  KEY_SSL_CLIENT_KEY :: "string option"
  KEY_SSL_CLIENT_CERT :: "string option"
  KEY_SSL_CA_CERT :: "string option"
  KEY_SSL_VALIDATION :: "bool option"
  KEY_PROXY_HOST :: "string option"
  KEY_PROXY_PORT :: "port option"
  KEY_PROXY_USER :: "string option"
  KEY_PROXY_PASS :: "string option"
  IMPORTER_CONFIG_KEY_GPG_KEYS :: "string list option"

text \<open>
  Python truth of a configuration value, as tested by \<open>if host and port\<close> and \<open>if key\<close>:
  \<open>None\<close>, the empty string and the integer zero are false.
\<close>

fun truthy_str :: "string option \<Rightarrow> bool" where
  "truthy_str None = False"
| "truthy_str (Some s) = (s \<noteq> [])"

fun truthy_port :: "port option \<Rightarrow> bool" where
  "truthy_port None = False"
| "truthy_port (Some (PortInt n)) = (n \<noteq> 0)"
| "truthy_port (Some (PortStr s)) = (s \<noteq> [])"

fun str_port :: "port \<Rightarrow> string" where
  "str_port (PortInt n) = str_int n"
| "str_port (PortStr s) = s"

text \<open>
  \<open>Remote.proxy_url\<close>. The branches are taken only when the tested values are true, so
  \<open>the\<close> is applied to \<open>Some\<close> values only.
\<close>

definition proxy_url :: "config \<Rightarrow> string option" where
  "proxy_url cfg =
     (let url = None;
          host = KEY_PROXY_HOST cfg;
          port = KEY_PROXY_PORT cfg;
          user = KEY_PROXY_USER cfg;
          password = KEY_PROXY_PASS cfg
      in if truthy_str host \<and> truthy_port port then
           (let url = str_join '':'' [the host, str_port (the port)]
            in if truthy_str user \<and> truthy_str password then
                 (let auth = str_join '':'' [the user, the password]
                  in Some (str_join ''@'' [auth, url]))
               else Some url)
         else url)"

text \<open>\<open>Remote.ssl_validation\<close>: \<open>config.get(KEY_SSL_VALIDATION, False)\<close>.\<close>

definition ssl_validation :: "config \<Rightarrow> bool" where
  "ssl_validation cfg = (case KEY_SSL_VALIDATION cfg of None \<Rightarrow> False | Some b \<Rightarrow> b)"

subsection \<open>Data of the OSTree library, the model and the platform\<close>

text \<open>A branch head as \<open>Repository.list_refs\<close> yields it (\<open>ref.path\<close>, \<open>ref.commit\<close>, \<open>ref.metadata\<close>).\<close>

record ref =
  ref_path :: string
  ref_commit :: string
  ref_metadata :: "(string \<times> string) list"

text \<open>\<open>model.Commit(digest, metadata)\<close> and \<open>model.Unit(remote_id, branch, commit)\<close>.\<close>

record commit =
  commit_digest :: string
  commit_metadata :: "(string \<times> string) list"

record ostree_unit =
  unit_remote_id :: string
  unit_branch :: string
  unit_commit :: commit

text \<open>The platform's \<open>Unit(type_id, unit_key, metadata, storage_path)\<close>.\<close>

record pulp_unit =
  type_id :: string
  unit_key :: "(string \<times> string) list"
  metadata :: "(string \<times> string) list"
  unit_storage_path :: string

text \<open>The attributes \<open>Remote.add\<close> sets on a \<open>lib.Remote(remote_id, repository)\<close>.\<close>

record remote_impl =
  impl_id :: string
  impl_repository :: string
  impl_url :: "string option"
  impl_ssl_key_path :: "string option"
  impl_ssl_cert_path :: "string option"
  impl_ssl_ca_path :: "string option"
  impl_ssl_validation :: bool
  impl_gpg_validation :: bool
  impl_proxy_url :: "string option"

text \<open>The progress report the library hands to the callback of \<open>Repository.pull\<close>.\<close>

record report =
  fetched :: int
  requested :: int
  percent :: int

subsection \<open>The world the steps act on\<close>

text \<open>
  A file system node as \<open>lstat\<close> sees it: a regular file with its content and permission
  bits, a symbolic link with its target, or a directory.
\<close>

datatype node = File string nat | Symlink string | Dir

text \<open>
  The calls the steps make to their collaborators, in the order they are made: the OSTree
  library's operations, \<open>os.symlink\<close> and the conduit's \<open>save_unit\<close>.
\<close>

datatype event =
    RepositoryOpen string
  | RepositoryCreate string
  | RemoteUpdate remote_impl
  | RemoteImportKey string string string "string list"
  | RepositoryPull string string "string list"
  | RepositoryListRefs string
  | RemoteDelete string string
  | OsSymlink string string
  | SaveUnit pulp_unit

text \<open>
  \<open>ext\<close> is the state of the OSTree library and of the GPG keyring, of a type the steps
  know nothing about; \<open>nodes\<close> is the file system; \<open>saved_units\<close> are the units the conduit
  has accepted; \<open>progress_reports\<close> are the detail strings reported with \<open>force=True\<close>.
\<close>

record 'e world =
  ext :: 'e
  nodes :: "string \<Rightarrow> node option"
  saved_units :: "pulp_unit list"
  trace :: "event list"
  progress_reports :: "string list"

datatype fs_op = OpMkdir | OpWrite | OpChmod | OpSymlink

text \<open>
  What the file does not define, as parameters: the constants of
  \<open>pulp_ostree.common.constants\<close>; the functions of \<open>pulp_ostree.common.model\<close>; what the
  step host provides (\<open>get_repo().id\<close>, \<open>get_working_dir()\<close>); the outcome of each operation
  of the OSTree library (the exception it raises, if any, and the state it leaves), of GPG
  (\<open>import_keys\<close> returns a result object with the number of keys imported, \<open>list_keys\<close> the
  key ids in the keyring) and of the conduit; and the operating system's environment
  (\<open>fs_fault\<close>: the \<open>errno\<close> with which an operation on a path fails for a reason outside
  the modelled nodes, such as permissions; \<open>default_mode\<close>: the permission bits of a newly
  created file, \<open>0666\<close> less the umask).
\<close>

record 'e env =
  SHARED_STORAGE :: string
  CONTENT_DIR :: string
  LINKS_DIR :: string
  OSTREE_TYPE_ID :: string
  generate_remote_id :: "string option \<Rightarrow> string"
  model_unit_key :: "ostree_unit \<Rightarrow> (string \<times> string) list"
  model_unit_metadata :: "ostree_unit \<Rightarrow> (string \<times> string) list"
  model_unit_storage_path :: "ostree_unit \<Rightarrow> string"
  get_repo_id :: string
  get_working_dir :: string
  lib_open :: "'e \<Rightarrow> string \<Rightarrow> exn option \<times> 'e"
  lib_create :: "'e \<Rightarrow> string \<Rightarrow> exn option \<times> 'e"
  lib_pull :: "'e \<Rightarrow> string \<Rightarrow> string \<Rightarrow> string list \<Rightarrow> report list \<times> exn option \<times> 'e"
  lib_list_refs :: "'e \<Rightarrow> string \<Rightarrow> exn + ref list"
  lib_remote_update :: "'e \<Rightarrow> remote_impl \<Rightarrow> exn option \<times> 'e"
  lib_remote_import_key :: "'e \<Rightarrow> remote_impl \<Rightarrow> string \<Rightarrow> string list \<Rightarrow> exn option \<times> 'e"
  lib_remote_delete :: "'e \<Rightarrow> string \<Rightarrow> string \<Rightarrow> exn option \<times> 'e"
  gpg_import_keys :: "'e \<Rightarrow> string \<Rightarrow> string \<Rightarrow> nat \<times> 'e"
  gpg_list_keys :: "'e \<Rightarrow> string \<Rightarrow> string list"
  save_unit_fault :: "pulp_unit list \<Rightarrow> pulp_unit \<Rightarrow> exn option"
  fs_fault :: "fs_op \<Rightarrow> string \<Rightarrow> nat option"
  default_mode :: nat

definition log_call :: "event \<Rightarrow> 'e world \<Rightarrow> 'e world" where
  "log_call ev w = w\<lparr>trace := trace w @ [ev]\<rparr>"

subsection \<open>The operating system\<close>

text \<open>
  The path the operating system walks for a path string: empty components and \<open>.\<close> are
  dropped, and \<open>..\<close> leaves the directory entered last (at the root it stays at the root; a
  relative path keeps a leading \<open>..\<close>). Directories that are themselves symbolic links are
  not modelled.
\<close>

fun split_slash :: "string \<Rightarrow> string \<Rightarrow> string list" where
  "split_slash acc [] = [rev acc]"
| "split_slash acc (c # cs) =
     (if c = CHR ''/'' then rev acc # split_slash [] cs else split_slash (c # acc) cs)"

fun walk_components :: "bool \<Rightarrow> string list \<Rightarrow> string list \<Rightarrow> string list" where
  "walk_components absolute seen [] = rev seen"
| "walk_components absolute seen (c # cs) =
     (if c = [] \<or> c = ''.'' then walk_components absolute seen cs
      else if c = ''..'' then
        (case seen of
           [] \<Rightarrow>
             if absolute then walk_components absolute [] cs
             else walk_components absolute [''..''] cs
         | s # ss \<Rightarrow>
             if s = ''..'' then walk_components absolute (''..'' # seen) cs
             else walk_components absolute ss cs)
      else walk_components absolute (c # seen) cs)"

definition canonical_path :: "string \<Rightarrow> string" where
  "canonical_path p =
     (let absolute = (p \<noteq> [] \<and> hd p = CHR ''/'')
      in (if absolute then ''/'' else []) @
         str_join ''/'' (walk_components absolute [] (split_slash [] p)))"

text \<open>
  Opening and \<open>chmod\<close> follow symbolic links (at most 40 of them, then \<open>ELOOP\<close>): the node
  looked up is the one at the walked path, and the target of a link is taken from the
  directory of the link unless it is absolute.
\<close>

fun resolve :: "(string \<Rightarrow> node option) \<Rightarrow> nat \<Rightarrow> string \<Rightarrow> string option" where
  "resolve ns 0 p =
     (case ns (canonical_path p) of
        Some (Symlink t) \<Rightarrow> None
      | _ \<Rightarrow> Some (canonical_path p))"
| "resolve ns (Suc k) p =
     (case ns (canonical_path p) of
        Some (Symlink t) \<Rightarrow>
          resolve ns k (os_path_join (os_path_dirname (canonical_path p)) [t])
      | _ \<Rightarrow> Some (canonical_path p))"

text \<open>\<open>with open(path, 'w+') as fp: fp.write(data)\<close>: an existing file keeps its mode.\<close>

definition write_file :: "'e env \<Rightarrow> string \<Rightarrow> string \<Rightarrow> 'e world \<Rightarrow> (exn + unit) \<times> 'e world" where
  "write_file env p data w =
     (case fs_fault env OpWrite p of
        Some e \<Rightarrow> (Inl (IOError e), w)
      | None \<Rightarrow>
          (case resolve (nodes w) 40 p of
             None \<Rightarrow> (Inl (IOError ELOOP), w)
           | Some q \<Rightarrow>
               (case nodes w q of
                  None \<Rightarrow> (Inr (), w\<lparr>nodes := (nodes w)(q \<mapsto> File data (default_mode env))\<rparr>)
                | Some (File old m) \<Rightarrow> (Inr (), w\<lparr>nodes := (nodes w)(q \<mapsto> File data m)\<rparr>)
                | Some Dir \<Rightarrow> (Inl (IOError EISDIR), w)
                | Some (Symlink t) \<Rightarrow> (Inl (IOError ELOOP), w))))"

text \<open>\<open>os.chmod(path, mode)\<close>; the permission bits of directories are not modelled.\<close>

definition os_chmod :: "'e env \<Rightarrow> string \<Rightarrow> nat \<Rightarrow> 'e world \<Rightarrow> (exn + unit) \<times> 'e world" where
  "os_chmod env p mode w =
     (case fs_fault env OpChmod p of
        Some e \<Rightarrow> (Inl (OSError e), w)
      | None \<Rightarrow>
          (case resolve (nodes w) 40 p of
             None \<Rightarrow> (Inl (OSError ELOOP), w)
           | Some q \<Rightarrow>
               (case nodes w q of
                  None \<Rightarrow> (Inl (OSError ENOENT), w)
                | Some (File data m) \<Rightarrow> (Inr (), w\<lparr>nodes := (nodes w)(q \<mapsto> File data mode)\<rparr>)
                | Some Dir \<Rightarrow> (Inr (), w)
                | Some (Symlink t) \<Rightarrow> (Inl (OSError ELOOP), w))))"

text \<open>
  \<open>os.symlink(target, link)\<close> never replaces what is at \<open>link\<close>: it fails with \<open>EEXIST\<close>.
  \<open>os.path.islink\<close> and \<open>os.readlink\<close> look at the node itself.
\<close>

definition os_symlink :: "'e env \<Rightarrow> string \<Rightarrow> string \<Rightarrow> 'e world \<Rightarrow> (exn + unit) \<times> 'e world" where
  "os_symlink env target link w =
     (let w1 = log_call (OsSymlink target link) w
      in case fs_fault env OpSymlink link of
           Some e \<Rightarrow> (Inl (OSError e), w1)
         | None \<Rightarrow>
             (case nodes w1 link of
                Some n \<Rightarrow> (Inl (OSError EEXIST), w1)
              | None \<Rightarrow> (Inr (), w1\<lparr>nodes := (nodes w1)(link \<mapsto> Symlink target)\<rparr>)))"

definition os_path_islink :: "string \<Rightarrow> 'e world \<Rightarrow> bool" where
  "os_path_islink link w = (case nodes w link of Some (Symlink t) \<Rightarrow> True | _ \<Rightarrow> False)"

definition os_readlink :: "string \<Rightarrow> 'e world \<Rightarrow> string option" where
  "os_readlink link w = (case nodes w link of Some (Symlink t) \<Rightarrow> Some t | _ \<Rightarrow> None)"

text \<open>
  \<open>pulp.plugins.util.misc.mkdir\<close>: \<open>os.makedirs\<close> with \<open>EEXIST\<close> tolerated. Only the
  directory itself is recorded, not the parents \<open>makedirs\<close> creates on the way.
\<close>

definition mkdir :: "'e env \<Rightarrow> string \<Rightarrow> 'e world \<Rightarrow> (exn + unit) \<times> 'e world" where
  "mkdir env p w =
     (case fs_fault env OpMkdir p of
        Some e \<Rightarrow> (if e = EEXIST then (Inr (), w) else (Inl (OSError e), w))
      | None \<Rightarrow>
          (case nodes w p of
             Some n \<Rightarrow> (Inr (), w)
           | None \<Rightarrow> (Inr (), w\<lparr>nodes := (nodes w)(p \<mapsto> Dir)\<rparr>)))"

subsection \<open>Main: the shared attributes and the children\<close>

text \<open>
  The attributes \<open>Main.__init__\<close> computes, which the children read through
  \<open>self.parent\<close>. \<open>config.get(IMPORTER_CONFIG_KEY_BRANCHES, [])\<close> gives the empty list when
  the key is not configured.
\<close>

record main =
  feed_url :: "string option"
  branches :: "string list"
  remote_id :: string
  storage_path :: string
  repo_id :: string

datatype step = Create | Pull | Add | Clean

definition Main_init :: "'e env \<Rightarrow> config \<Rightarrow> main" where
  "Main_init env cfg =
     \<lparr>feed_url = KEY_FEED cfg,
      branches = (case IMPORTER_CONFIG_KEY_BRANCHES cfg of None \<Rightarrow> [] | Some bs \<Rightarrow> bs),
      remote_id = generate_remote_id env (KEY_FEED cfg),
      storage_path =
        os_path_join (SHARED_STORAGE env) [generate_remote_id env (KEY_FEED cfg), CONTENT_DIR env],
      repo_id = get_repo_id env\<rparr>"

text \<open>
  The children, in the order of the \<open>add_child\<close> calls. The step host that runs them
  (\<open>PluginStep\<close> of the Pulp platform) is not part of the file and is not modelled: each
  step's \<open>process_main\<close> is a function of the world it is run in.
\<close>

definition Main_children :: "step list" where
  "Main_children = [Create, Pull, Add, Clean]"

subsection \<open>Remote: the remote built from the configuration\<close>

text \<open>\<open>os.chmod(path, 0600)\<close>: the octal literal.\<close>

definition mode_0600 :: nat where
  "mode_0600 = 6 * 64"

definition Remote_ssl_key_path ::
  "'e env \<Rightarrow> config \<Rightarrow> 'e world \<Rightarrow> (exn + string option) \<times> 'e world" where
  "Remote_ssl_key_path env cfg w =
     (let key = KEY_SSL_CLIENT_KEY cfg
      in if truthy_str key then
           (let path = os_path_join (get_working_dir env) [''key.pem'']
            in case write_file env path (the key) w of
                 (Inl x, w1) \<Rightarrow> (Inl x, w1)
               | (Inr u, w1) \<Rightarrow>
                   (case os_chmod env path mode_0600 w1 of
                      (Inl x, w2) \<Rightarrow> (Inl x, w2)
                    | (Inr u, w2) \<Rightarrow> (Inr (Some path), w2)))
         else (Inr None, w))"

definition Remote_ssl_cert_path ::
  "'e env \<Rightarrow> config \<Rightarrow> 'e world \<Rightarrow> (exn + string option) \<times> 'e world" where
  "Remote_ssl_cert_path env cfg w =
     (let key = KEY_SSL_CLIENT_CERT cfg
      in if truthy_str key then
           (let path = os_path_join (get_working_dir env) [''cert.pem'']
            in case write_file env path (the key) w of
                 (Inl x, w1) \<Rightarrow> (Inl x, w1)
               | (Inr u, w1) \<Rightarrow> (Inr (Some path), w1))
         else (Inr None, w))"

definition Remote_ssl_ca_path ::
  "'e env \<Rightarrow> config \<Rightarrow> 'e world \<Rightarrow> (exn + string option) \<times> 'e world" where
  "Remote_ssl_ca_path env cfg w =
     (let key = KEY_SSL_CA_CERT cfg
      in if truthy_str key then
           (let path = os_path_join (get_working_dir env) [''ca.pem'']
            in case write_file env path (the key) w of
                 (Inl x, w1) \<Rightarrow> (Inl x, w1)
               | (Inr u, w1) \<Rightarrow> (Inr (Some path), w1))
         else (Inr None, w))"

text \<open>
  \<open>Remote.gpg_keys\<close>: \<open>map(gpg.import_keys, key_list)\<close> imports the configured blobs in
  order and drops each result object; the key ids are then read from the keyring.
\<close>

definition import_all :: "'e env \<Rightarrow> string \<Rightarrow> string list \<Rightarrow> 'e \<Rightarrow> 'e" where
  "import_all env home key_list e = foldl (\<lambda>e1 blob. snd (gpg_import_keys env e1 home blob)) e key_list"

definition Remote_gpg_keys ::
  "'e env \<Rightarrow> config \<Rightarrow> 'e world \<Rightarrow> (string \<times> string list) \<times> 'e world" where
  "Remote_gpg_keys env cfg w =
     (let home = get_working_dir env;
          path = os_path_join home [''pubring.gpg''];
          key_list = (case IMPORTER_CONFIG_KEY_GPG_KEYS cfg of None \<Rightarrow> [] | Some ks \<Rightarrow> ks);
          e1 = import_all env home key_list (ext w);
          key_ids = gpg_list_keys env e1 home
      in ((path, key_ids), w\<lparr>ext := e1\<rparr>))"

text \<open>\<open>impl.update()\<close> and \<open>impl.import_key(path, key_ids)\<close> of the library's remote.\<close>

definition impl_update :: "'e env \<Rightarrow> remote_impl \<Rightarrow> 'e world \<Rightarrow> (exn + unit) \<times> 'e world" where
  "impl_update env impl w =
     (let w1 = log_call (RemoteUpdate impl) w;
          (r, e1) = lib_remote_update env (ext w1) impl;
          w2 = w1\<lparr>ext := e1\<rparr>
      in case r of Some x \<Rightarrow> (Inl x, w2) | None \<Rightarrow> (Inr (), w2))"

definition impl_import_key ::
  "'e env \<Rightarrow> remote_impl \<Rightarrow> string \<Rightarrow> string list \<Rightarrow> 'e world \<Rightarrow> (exn + unit) \<times> 'e world" where
  "impl_import_key env impl path key_ids w =
     (let w1 = log_call (RemoteImportKey (impl_repository impl) (impl_id impl) path key_ids) w;
          (r, e1) = lib_remote_import_key env (ext w1) impl path key_ids;
          w2 = w1\<lparr>ext := e1\<rparr>
      in case r of Some x \<Rightarrow> (Inl x, w2) | None \<Rightarrow> (Inr (), w2))"

text \<open>
  \<open>Remote.add\<close>, in the order of its statements: the GPG keys, the three SSL files, the
  attributes of the library's remote, \<open>update\<close>, and \<open>import_key\<close> when there are key ids.
  \<open>repository\<close> is the path of the \<open>lib.Repository\<close> the remote was built with.
\<close>

definition Remote_add ::
  "'e env \<Rightarrow> config \<Rightarrow> main \<Rightarrow> string \<Rightarrow> 'e world \<Rightarrow> (exn + unit) \<times> 'e world" where
  "Remote_add env cfg parent repository w =
     (case Remote_gpg_keys env cfg w of
        ((path, key_ids), w1) \<Rightarrow>
          (case Remote_ssl_key_path env cfg w1 of
             (Inl x, w2) \<Rightarrow> (Inl x, w2)
           | (Inr key_path, w2) \<Rightarrow>
               (case Remote_ssl_cert_path env cfg w2 of
                  (Inl x, w3) \<Rightarrow> (Inl x, w3)
                | (Inr cert_path, w3) \<Rightarrow>
                    (case Remote_ssl_ca_path env cfg w3 of
                       (Inl x, w4) \<Rightarrow> (Inl x, w4)
                     | (Inr ca_path, w4) \<Rightarrow>
                         (let impl =
                                \<lparr>impl_id = repo_id parent,
                                 impl_repository = repository,
                                 impl_url = feed_url parent,
                                 impl_ssl_key_path = key_path,
                                 impl_ssl_cert_path = cert_path,
                                 impl_ssl_ca_path = ca_path,
                                 impl_ssl_validation = ssl_validation cfg,
                                 impl_gpg_validation = (length key_ids > 0),
                                 impl_proxy_url = proxy_url cfg\<rparr>
                          in case impl_update env impl w4 of
                               (Inl x, w5) \<Rightarrow> (Inl x, w5)
                             | (Inr u, w5) \<Rightarrow>
                                 (if key_ids \<noteq> [] then impl_import_key env impl path key_ids w5
                                  else (Inr (), w5)))))))"

subsection \<open>Create\<close>

text \<open>
  The body of the \<open>try\<close> of \<open>Create._init_repository\<close>: any \<open>LibError\<close> of \<open>open\<close> is
  answered by \<open>create\<close>; an exception of another class leaves the block.
\<close>

definition init_repository_body ::
  "'e env \<Rightarrow> config \<Rightarrow> main \<Rightarrow> string \<Rightarrow> 'e world \<Rightarrow> (exn + unit) \<times> 'e world" where
  "init_repository_body env cfg parent path w =
     (let w1 = log_call (RepositoryOpen path) w;
          (r, e1) = lib_open env (ext w1) path;
          w2 = w1\<lparr>ext := e1\<rparr>
      in case r of
           None \<Rightarrow> Remote_add env cfg parent path w2
         | Some (LibError le) \<Rightarrow>
             (let w3 = log_call (RepositoryCreate path) w2;
                  (r', e2) = lib_create env (ext w3) path;
                  w4 = w3\<lparr>ext := e2\<rparr>
              in case r' of
                   None \<Rightarrow> Remote_add env cfg parent path w4
                 | Some x \<Rightarrow> (Inl x, w4))
         | Some x \<Rightarrow> (Inl x, w2))"

text \<open>The \<open>except lib.LibError, le\<close> around it: \<open>OST0001\<close> with the path and \<open>str(le)\<close>.\<close>

definition Create_init_repository ::
  "'e env \<Rightarrow> config \<Rightarrow> main \<Rightarrow> string \<Rightarrow> 'e world \<Rightarrow> (exn + unit) \<times> 'e world" where
  "Create_init_repository env cfg parent path w =
     (case init_repository_body env cfg parent path w of
        (Inl (LibError le), w1) \<Rightarrow>
          (Inl (PulpCodedException OST0001 [(''path'', path), (''reason'', le)]), w1)
      | (r, w1) \<Rightarrow> (r, w1))"

definition Create_process_main ::
  "'e env \<Rightarrow> config \<Rightarrow> main \<Rightarrow> 'e world \<Rightarrow> (exn + unit) \<times> 'e world" where
  "Create_process_main env cfg parent w =
     (let path = storage_path parent
      in case mkdir env path w of
           (Inl x, w1) \<Rightarrow> (Inl x, w1)
         | (Inr u, w1) \<Rightarrow>
             (case mkdir env (os_path_join (os_path_dirname path) [LINKS_DIR env]) w1 of
                (Inl x, w2) \<Rightarrow> (Inl x, w2)
              | (Inr u, w2) \<Rightarrow> Create_init_repository env cfg parent path w2))"

subsection \<open>Pull\<close>

text \<open>
  The callback \<open>report_progress\<close> of \<open>Pull._pull\<close>:
  \<open>'branch: %(b)s fetching %(f)d/%(r)d %(p)d%%' % data\<close>.
\<close>

definition progress_details :: "string \<Rightarrow> report \<Rightarrow> string" where
  "progress_details branch_id rep =
     ''branch: '' @ branch_id @ '' fetching '' @ str_int (fetched rep) @ ''/'' @
     str_int (requested rep) @ '' '' @ str_int (percent rep) @ ''%''"

text \<open>
  \<open>Pull._pull\<close>: one call of \<open>repository.pull(remote_id, [branch_id], report_progress)\<close>;
  the library calls the callback for each of its reports; a \<open>LibError\<close> becomes \<open>OST0002\<close>
  with the branch and \<open>str(le)\<close>.
\<close>

definition Pull_pull ::
  "'e env \<Rightarrow> string \<Rightarrow> string \<Rightarrow> string \<Rightarrow> 'e world \<Rightarrow> (exn + unit) \<times> 'e world" where
  "Pull_pull env path rid branch_id w =
     (let w1 = log_call (RepositoryPull path rid [branch_id]) w;
          (reports, r, e1) = lib_pull env (ext w1) path rid [branch_id];
          w2 = w1\<lparr>ext := e1,
                  progress_reports := progress_reports w1 @ map (progress_details branch_id) reports\<rparr>
      in case r of
           None \<Rightarrow> (Inr (), w2)
         | Some (LibError le) \<Rightarrow>
             (Inl (PulpCodedException OST0002 [(''branch'', branch_id), (''reason'', le)]), w2)
         | Some x \<Rightarrow> (Inl x, w2))"

text \<open>The loop of \<open>Pull.process_main\<close> over \<open>self.parent.branches\<close>.\<close>

fun pull_each ::
  "'e env \<Rightarrow> string \<Rightarrow> string \<Rightarrow> string list \<Rightarrow> 'e world \<Rightarrow> (exn + unit) \<times> 'e world" where
  "pull_each env path rid [] w = (Inr (), w)"
| "pull_each env path rid (branch_id # rest) w =
     (case Pull_pull env path rid branch_id w of
        (Inl x, w1) \<Rightarrow> (Inl x, w1)
      | (Inr u, w1) \<Rightarrow> pull_each env path rid rest w1)"

definition Pull_process_main :: "'e env \<Rightarrow> main \<Rightarrow> 'e world \<Rightarrow> (exn + unit) \<times> 'e world" where
  "Pull_process_main env parent w =
     pull_each env (storage_path parent) (repo_id parent) (branches parent) w"

subsection \<open>Add\<close>

text \<open>
  \<open>Add.link\<close>: \<open>os.symlink(target, link)\<close>; an \<open>OSError\<close> is swallowed only when its errno
  is \<open>EEXIST\<close> and the path is a link that reads back as the target, and raised again
  otherwise.
\<close>

definition Add_link :: "'e env \<Rightarrow> main \<Rightarrow> ostree_unit \<Rightarrow> 'e world \<Rightarrow> (exn + unit) \<times> 'e world" where
  "Add_link env parent unit w =
     (let link = model_unit_storage_path env unit;
          target = storage_path parent
      in case os_symlink env target link w of
           (Inl (OSError e), w1) \<Rightarrow>
             (if e = EEXIST \<and> os_path_islink link w1 \<and> os_readlink link w1 = Some target
              then (Inr (), w1)
              else (Inl (OSError e), w1))
         | (r, w1) \<Rightarrow> (r, w1))"

text \<open>\<open>conduit.save_unit(_unit)\<close>.\<close>

definition save_unit :: "'e env \<Rightarrow> pulp_unit \<Rightarrow> 'e world \<Rightarrow> (exn + unit) \<times> 'e world" where
  "save_unit env u w =
     (let w1 = log_call (SaveUnit u) w
      in case save_unit_fault env (saved_units w1) u of
           Some x \<Rightarrow> (Inl x, w1)
         | None \<Rightarrow> (Inr (), w1\<lparr>saved_units := saved_units w1 @ [u]\<rparr>))"

text \<open>The two units built for a branch head in the loop of \<open>Add.process_main\<close>.\<close>

definition model_unit :: "main \<Rightarrow> ref \<Rightarrow> ostree_unit" where
  "model_unit parent r =
     (let commit = \<lparr>commit_digest = ref_commit r, commit_metadata = ref_metadata r\<rparr>
      in \<lparr>unit_remote_id = remote_id parent, unit_branch = ref_path r, unit_commit = commit\<rparr>)"

definition plugin_unit :: "'e env \<Rightarrow> ostree_unit \<Rightarrow> pulp_unit" where
  "plugin_unit env unit =
     \<lparr>type_id = OSTREE_TYPE_ID env,
      unit_key = model_unit_key env unit,
      metadata = model_unit_metadata env unit,
      unit_storage_path = model_unit_storage_path env unit\<rparr>"

text \<open>The loop of \<open>Add.process_main\<close> over the branch heads.\<close>

fun add_each :: "'e env \<Rightarrow> main \<Rightarrow> ref list \<Rightarrow> 'e world \<Rightarrow> (exn + unit) \<times> 'e world" where
  "add_each env parent [] w = (Inr (), w)"
| "add_each env parent (r # rest) w =
     (if ref_path r \<notin> set (branches parent) then add_each env parent rest w
      else
        (let unit = model_unit parent r
         in case Add_link env parent unit w of
              (Inl x, w1) \<Rightarrow> (Inl x, w1)
            | (Inr u, w1) \<Rightarrow>
                (case save_unit env (plugin_unit env unit) w1 of
                   (Inl x, w2) \<Rightarrow> (Inl x, w2)
                 | (Inr u, w2) \<Rightarrow> add_each env parent rest w2)))"

definition Add_process_main :: "'e env \<Rightarrow> main \<Rightarrow> 'e world \<Rightarrow> (exn + unit) \<times> 'e world" where
  "Add_process_main env parent w =
     (let w1 = log_call (RepositoryListRefs (storage_path parent)) w
      in case lib_list_refs env (ext w1) (storage_path parent) of
           Inl x \<Rightarrow> (Inl x, w1)
         | Inr refs \<Rightarrow> add_each env parent refs w1)"

subsection \<open>Clean\<close>

text \<open>\<open>Clean.process_main\<close>: \<open>remote.delete()\<close>; a \<open>LibError\<close> becomes \<open>OST0003\<close>.\<close>

definition Clean_process_main :: "'e env \<Rightarrow> main \<Rightarrow> 'e world \<Rightarrow> (exn + unit) \<times> 'e world" where
  "Clean_process_main env parent w =
     (let path = storage_path parent;
          rid = repo_id parent;
          w1 = log_call (RemoteDelete path rid) w;
          (r, e1) = lib_remote_delete env (ext w1) path rid;
          w2 = w1\<lparr>ext := e1\<rparr>
      in case r of
           None \<Rightarrow> (Inr (), w2)
         | Some (LibError le) \<Rightarrow>
             (Inl (PulpCodedException OST0003 [(''id'', rid), (''reason'', le)]), w2)
         | Some x \<Rightarrow> (Inl x, w2))"

subsection \<open>An example environment\<close>

text \<open>
  A small collaborator for the examples: the state is the list of key ids in the GPG
  keyring; a key blob of the form \<open>KEY:id\<close> imports \<open>id\<close> and any other blob imports
  nothing; the mirror has the heads \<open>stable/x86_64/os\<close> and \<open>testing/x86_64/os\<close>; every
  operation of the library succeeds, but pulling the branch \<open>broken\<close> raises a \<open>LibError\<close>.
\<close>

definition example_refs :: "ref list" where
  "example_refs =
     [\<lparr>ref_path = ''stable/x86_64/os'', ref_commit = ''c1'', ref_metadata = []\<rparr>,
      \<lparr>ref_path = ''testing/x86_64/os'', ref_commit = ''c2'', ref_metadata = []\<rparr>]"

definition example_env :: "string list env" where
  "example_env =
     \<lparr>SHARED_STORAGE = ''/shared/ostree'',
      CONTENT_DIR = ''content'',
      LINKS_DIR = ''links'',
      OSTREE_TYPE_ID = ''ostree'',
      generate_remote_id = (\<lambda>url. ''r1''),
      model_unit_key = (\<lambda>u. [(''remote_id'', unit_remote_id u), (''branch'', unit_branch u),
                               (''commit'', commit_digest (unit_commit u))]),
      model_unit_metadata = (\<lambda>u. commit_metadata (unit_commit u)),
      model_unit_storage_path = (\<lambda>u. ''/shared/ostree/r1/links/'' @ commit_digest (unit_commit u)),
      get_repo_id = ''repo1'',
      get_working_dir = ''/work'',
      lib_open = (\<lambda>e p. (None, e)),
      lib_create = (\<lambda>e p. (None, e)),
      lib_pull = (\<lambda>e p rid bs.
        ([\<lparr>fetched = 1, requested = 2, percent = 50\<rparr>],
         if bs = [''broken''] then Some (LibError ''no such branch'') else None, e)),
      lib_list_refs = (\<lambda>e p. Inr example_refs),
      lib_remote_update = (\<lambda>e impl. (None, e)),
      lib_remote_import_key = (\<lambda>e impl p ids. (None, e)),
      lib_remote_delete = (\<lambda>e p rid. (None, e)),
      gpg_import_keys = (\<lambda>e home blob.
        if take 4 blob = ''KEY:'' then (1, e @ [drop 4 blob]) else (0, e)),
      gpg_list_keys = (\<lambda>e home. e),
      save_unit_fault = (\<lambda>us u. None),
      fs_fault = (\<lambda>op p. None),
      default_mode = 420\<rparr>"

definition example_config :: config where
  "example_config =
     \<lparr>KEY_FEED = Some ''https://example/repo'',
      IMPORTER_CONFIG_KEY_BRANCHES = Some [''stable/x86_64/os''],
      KEY_SSL_CLIENT_KEY = None,
      KEY_SSL_CLIENT_CERT = None,
      KEY_SSL_CA_CERT = None,
      KEY_SSL_VALIDATION = None,
      KEY_PROXY_HOST = None,
      KEY_PROXY_PORT = None,
      KEY_PROXY_USER = None,
      KEY_PROXY_PASS = None,
      IMPORTER_CONFIG_KEY_GPG_KEYS = None\<rparr>"

definition example_world :: "string list world" where
  "example_world =
     \<lparr>ext = [], nodes = Map.empty, saved_units = [], trace = [], progress_reports = []\<rparr>"

definition example_main :: "string list \<Rightarrow> main" where
  "example_main bs =
     \<lparr>feed_url = Some ''https://example/repo'',
      branches = bs,
      remote_id = ''r1'',
      storage_path = ''/shared/ostree/r1/content'',
      repo_id = ''repo1''\<rparr>"

definition example_unit :: ostree_unit where
  "example_unit = model_unit (example_main [''stable/x86_64/os'']) (hd example_refs)"

section \<open>Properties\<close>

subsection \<open>The trace and the frame of the elementary operations\<close>

lemma log_call_simps:
  "trace (log_call ev w) = trace w @ [ev]"
  "ext (log_call ev w) = ext w"
  "nodes (log_call ev w) = nodes w"
  "saved_units (log_call ev w) = saved_units w"
  "progress_reports (log_call ev w) = progress_reports w"
  by (simp_all add: log_call_def)

subsection \<open>Pull: one branch at a time, stopping at the first failure\<close>

lemma Pull_pull_trace:
  "trace (snd (Pull_pull env path rid b w)) = trace w @ [RepositoryPull path rid [b]]"
  by (simp add: Pull_pull_def Let_def log_call_simps split: prod.splits option.splits exn.splits)

lemma Pull_pull_LibError:
  "lib_pull env (ext w) path rid [b] = (reports, Some (LibError le), e1) \<Longrightarrow>
   fst (Pull_pull env path rid b w) = Inl (PulpCodedException OST0002 [(''branch'', b), (''reason'', le)])"
  by (simp add: Pull_pull_def Let_def log_call_simps)

lemma pull_each_append:
  "pull_each env path rid (pre @ rest) w =
     (case pull_each env path rid pre w of
        (Inl x, w1) \<Rightarrow> (Inl x, w1)
      | (Inr u, w1) \<Rightarrow> pull_each env path rid rest w1)"
  by (induction pre arbitrary: w) (auto split: prod.splits sum.splits)

lemma pull_each_trace_prefix:
  "\<exists>k \<le> length bs.
     trace (snd (pull_each env path rid bs w)) = trace w @ map (\<lambda>b. RepositoryPull path rid [b]) (take k bs) \<and>
     (fst (pull_each env path rid bs w) = Inr () \<longrightarrow> k = length bs)"
proof (induction bs arbitrary: w)
  case Nil
  then show ?case by simp
next
  case (Cons b bs)
  obtain r w1 where p: "Pull_pull env path rid b w = (r, w1)" by (cases "Pull_pull env path rid b w")
  have t1: "trace w1 = trace w @ [RepositoryPull path rid [b]]"
    using Pull_pull_trace [of env path rid b w] p by simp
  show ?case
  proof (cases r)
    case (Inl x)
    with p t1 show ?thesis by (intro exI [of _ 1]) simp
  next
    case (Inr u)
    from Cons.IH [of w1] obtain k where k: "k \<le> length bs"
      "trace (snd (pull_each env path rid bs w1)) = trace w1 @ map (\<lambda>b. RepositoryPull path rid [b]) (take k bs)"
      "fst (pull_each env path rid bs w1) = Inr () \<longrightarrow> k = length bs" by blast
    with p t1 Inr show ?thesis by (intro exI [of _ "Suc k"]) simp
  qed
qed

lemma pull_each_trace_ok:
  "pull_each env path rid bs w = (Inr (), w') \<Longrightarrow>
   trace w' = trace w @ map (\<lambda>b. RepositoryPull path rid [b]) bs"
  using pull_each_trace_prefix [of bs env path rid w] by auto

text \<open>
  C1. \<open>Pull.process_main\<close> calls the library's \<open>pull\<close> once per configured branch, each
  call with the one-element list of that branch, in the order of the list: whatever the
  outcome, the calls made are those for an initial segment of the list, and the whole
  list when the step returns. When the branches before \<open>b\<close> have been pulled and the pull
  of \<open>b\<close> raises a \<open>LibError\<close> with message \<open>le\<close>, the step raises the
  \<open>PulpCodedException\<close> with code \<open>OST0002\<close>, \<open>branch=b\<close> and \<open>reason=le\<close>, and the last
  call made is the one for \<open>b\<close>: no branch after it is attempted.
\<close>

theorem Pull_process_main_in_order_until_first_failure:
  "(\<exists>k \<le> length (branches parent).
      trace (snd (Pull_process_main env parent w)) =
        trace w @ map (\<lambda>b. RepositoryPull (storage_path parent) (repo_id parent) [b]) (take k (branches parent)) \<and>
      (fst (Pull_process_main env parent w) = Inr () \<longrightarrow> k = length (branches parent))) \<and>
   (branches parent = pre @ b # post \<and>
    pull_each env (storage_path parent) (repo_id parent) pre w = (Inr (), w1) \<and>
    lib_pull env (ext w1) (storage_path parent) (repo_id parent) [b] = (reports, Some (LibError le), e1) \<longrightarrow>
      fst (Pull_process_main env parent w) =
        Inl (PulpCodedException OST0002 [(''branch'', b), (''reason'', le)]) \<and>
      trace (snd (Pull_process_main env parent w)) =
        trace w @ map (\<lambda>b. RepositoryPull (storage_path parent) (repo_id parent) [b]) (pre @ [b]))"
proof (intro conjI impI)
  show "\<exists>k \<le> length (branches parent).
      trace (snd (Pull_process_main env parent w)) =
        trace w @ map (\<lambda>b. RepositoryPull (storage_path parent) (repo_id parent) [b]) (take k (branches parent)) \<and>
      (fst (Pull_process_main env parent w) = Inr () \<longrightarrow> k = length (branches parent))"
    unfolding Pull_process_main_def by (rule pull_each_trace_prefix)
next
  assume a: "branches parent = pre @ b # post \<and>
    pull_each env (storage_path parent) (repo_id parent) pre w = (Inr (), w1) \<and>
    lib_pull env (ext w1) (storage_path parent) (repo_id parent) [b] = (reports, Some (LibError le), e1)"
  let ?P = "storage_path parent" and ?R = "repo_id parent"
  obtain r w2 where p: "Pull_pull env ?P ?R b w1 = (r, w2)" by (cases "Pull_pull env ?P ?R b w1")
  have r: "r = Inl (PulpCodedException OST0002 [(''branch'', b), (''reason'', le)])"
    using Pull_pull_LibError [of env w1 ?P ?R b reports le e1] a p by simp
  have t2: "trace w2 = trace w1 @ [RepositoryPull ?P ?R [b]]"
    using Pull_pull_trace [of env ?P ?R b w1] p by simp
  have t1: "trace w1 = trace w @ map (\<lambda>b. RepositoryPull ?P ?R [b]) pre"
    using a pull_each_trace_ok by blast
  have run: "Pull_process_main env parent w = (r, w2)"
    using a p r by (simp add: Pull_process_main_def pull_each_append)
  show "fst (Pull_process_main env parent w) =
        Inl (PulpCodedException OST0002 [(''branch'', b), (''reason'', le)])"
    using run r by simp
  show "trace (snd (Pull_process_main env parent w)) =
        trace w @ map (\<lambda>b. RepositoryPull ?P ?R [b]) (pre @ [b])"
    using run t1 t2 by simp
qed

theorem Pull_process_main_in_order_until_first_failure_witness:
  "fst (Pull_process_main example_env (example_main [''A'', ''broken'', ''C'']) example_world) =
     Inl (PulpCodedException OST0002 [(''branch'', ''broken''), (''reason'', ''no such branch'')]) \<and>
   trace (snd (Pull_process_main example_env (example_main [''A'', ''broken'', ''C'']) example_world)) =
     [RepositoryPull ''/shared/ostree/r1/content'' ''repo1'' [''A''],
      RepositoryPull ''/shared/ostree/r1/content'' ''repo1'' [''broken'']]"
proof -
  let ?p = "example_main [''A'', ''broken'', ''C'']"
  let ?w1 = "snd (pull_each example_env (storage_path ?p) (repo_id ?p) [''A''] example_world)"
  have b: "branches ?p = [''A''] @ ''broken'' # [''C'']"
    by (simp add: example_main_def)
  have pre: "pull_each example_env (storage_path ?p) (repo_id ?p) [''A''] example_world = (Inr (), ?w1)"
    by (simp add: example_main_def example_env_def Pull_pull_def log_call_def)
  have bad: "lib_pull example_env (ext ?w1) (storage_path ?p) (repo_id ?p) [''broken''] =
      ([\<lparr>fetched = 1, requested = 2, percent = 50\<rparr>], Some (LibError ''no such branch''), [])"
    by (simp add: example_main_def example_env_def Pull_pull_def log_call_def example_world_def)
  have tr: "trace example_world = []"
    by (simp add: example_world_def)
  have sp: "storage_path ?p = ''/shared/ostree/r1/content''" "repo_id ?p = ''repo1''"
    by (simp_all add: example_main_def)
  from Pull_process_main_in_order_until_first_failure [THEN conjunct2, rule_format, OF conjI [OF b conjI [OF pre bad]]]
  show ?thesis
    unfolding tr sp by simp
qed

subsection \<open>Remote: the proxy URL\<close>

text \<open>
  C5. \<open>Remote.proxy_url\<close>, where a value is present when \<open>config.get\<close> returns a true
  Python value for it (a non-empty string, a non-zero port): with host \<open>h\<close> and port \<open>p\<close>
  present the URL is \<open>u:pw@h:p\<close> when user \<open>u\<close> and password \<open>pw\<close> are both present, and
  \<open>h:p\<close> when the user or the password is missing; it is \<open>None\<close> when the host or the
  port is missing. The property returns a value in every case: no branch raises.
\<close>

theorem proxy_url_composition:
  "(KEY_PROXY_HOST cfg = Some h \<and> h \<noteq> [] \<and> KEY_PROXY_PORT cfg = Some p \<and> truthy_port (Some p) \<longrightarrow>
      (KEY_PROXY_USER cfg = Some u \<and> u \<noteq> [] \<and> KEY_PROXY_PASS cfg = Some pw \<and> pw \<noteq> [] \<longrightarrow>
         proxy_url cfg = Some (u @ '':'' @ pw @ ''@'' @ h @ '':'' @ str_port p)) \<and>
      (\<not> truthy_str (KEY_PROXY_USER cfg) \<or> \<not> truthy_str (KEY_PROXY_PASS cfg) \<longrightarrow>
         proxy_url cfg = Some (h @ '':'' @ str_port p))) \<and>
   (\<not> truthy_str (KEY_PROXY_HOST cfg) \<or> \<not> truthy_port (KEY_PROXY_PORT cfg) \<longrightarrow>
      proxy_url cfg = None)"
  by (auto simp add: proxy_url_def Let_def)

theorem proxy_url_composition_witness:
  "proxy_url (example_config\<lparr>KEY_PROXY_HOST := Some ''proxy.example'',
       KEY_PROXY_PORT := Some (PortInt 3128), KEY_PROXY_USER := Some ''u'',
       KEY_PROXY_PASS := Some ''w''\<rparr>) = Some ''u:w@proxy.example:3128'' \<and>
   proxy_url (example_config\<lparr>KEY_PROXY_HOST := Some ''proxy.example'',
       KEY_PROXY_PORT := Some (PortStr ''80''), KEY_PROXY_USER := Some ''u''\<rparr>) =
     Some ''proxy.example:80'' \<and>
   proxy_url (example_config\<lparr>KEY_PROXY_PORT := Some (PortInt 3128), KEY_PROXY_USER := Some ''u'',
       KEY_PROXY_PASS := Some ''w''\<rparr>) = None"
  using
    proxy_url_composition [of "example_config\<lparr>KEY_PROXY_HOST := Some ''proxy.example'',
       KEY_PROXY_PORT := Some (PortInt 3128), KEY_PROXY_USER := Some ''u'',
       KEY_PROXY_PASS := Some ''w''\<rparr>" "''proxy.example''" "PortInt 3128" "''u''" "''w''"]
    proxy_url_composition [of "example_config\<lparr>KEY_PROXY_HOST := Some ''proxy.example'',
       KEY_PROXY_PORT := Some (PortStr ''80''), KEY_PROXY_USER := Some ''u''\<rparr>"
       "''proxy.example''" "PortStr ''80''" "''u''" "''w''"]
    proxy_url_composition [of "example_config\<lparr>KEY_PROXY_PORT := Some (PortInt 3128),
       KEY_PROXY_USER := Some ''u'', KEY_PROXY_PASS := Some ''w''\<rparr>"
       "''h''" "PortInt 3128" "''u''" "''w''"]
  by (simp add: example_config_def str_int_def digit_char_def)

subsection \<open>Add: the link, the save and the loop over the branch heads\<close>

lemma os_symlink_frame:
  "os_symlink env target link w = (r, w1) \<Longrightarrow>
   trace w1 = trace w @ [OsSymlink target link] \<and> ext w1 = ext w \<and>
   saved_units w1 = saved_units w \<and> progress_reports w1 = progress_reports w"
  by (auto simp add: os_symlink_def Let_def log_call_simps split: option.splits)

lemma os_symlink_nodes:
  "os_symlink env target link w = (r, w1) \<Longrightarrow>
   (r = Inr () \<longrightarrow> nodes w1 link = Some (Symlink target)) \<and>
   (r \<noteq> Inr () \<longrightarrow> nodes w1 = nodes w) \<and>
   (\<forall>p n. nodes w p = Some n \<longrightarrow> nodes w1 p = Some n)"
  by (auto simp add: os_symlink_def Let_def log_call_simps split: option.splits)

lemma Add_link_frame:
  "Add_link env parent unit w = (r, w1) \<Longrightarrow>
   trace w1 = trace w @ [OsSymlink (storage_path parent) (model_unit_storage_path env unit)] \<and>
   ext w1 = ext w \<and> saved_units w1 = saved_units w \<and> progress_reports w1 = progress_reports w"
  by (auto simp add: Add_link_def Let_def split: prod.splits sum.splits exn.splits if_splits
      dest: os_symlink_frame)

lemma Add_link_nodes:
  "Add_link env parent unit w = (r, w1) \<Longrightarrow>
   (r = Inr () \<longrightarrow> nodes w1 (model_unit_storage_path env unit) = Some (Symlink (storage_path parent))) \<and>
   (\<forall>p n. nodes w p = Some n \<longrightarrow> nodes w1 p = Some n)"
  by (auto simp add: Add_link_def Let_def os_readlink_def os_path_islink_def
      split: prod.splits sum.splits exn.splits if_splits option.splits node.splits
      dest: os_symlink_nodes)

lemma save_unit_frame:
  "save_unit env u w = (r, w1) \<Longrightarrow>
   trace w1 = trace w @ [SaveUnit u] \<and> ext w1 = ext w \<and> nodes w1 = nodes w \<and>
   progress_reports w1 = progress_reports w \<and>
   saved_units w1 = saved_units w @ (if r = Inr () then [u] else [])"
  by (auto simp add: save_unit_def Let_def log_call_simps split: option.splits)


lemma add_each_append:
  "add_each env parent (pre @ rest) w =
     (case add_each env parent pre w of
        (Inl x, w1) \<Rightarrow> (Inl x, w1)
      | (Inr u, w1) \<Rightarrow> add_each env parent rest w1)"
  by (induction pre arbitrary: w) (auto simp add: Let_def split: prod.splits sum.splits)

lemma add_each_frame:
  "add_each env parent refs w = (r, w') \<Longrightarrow>
   ext w' = ext w \<and> progress_reports w' = progress_reports w"
proof (induction refs arbitrary: w)
  case Nil
  then show ?case by simp
next
  case (Cons a refs)
  show ?case
  proof (cases "ref_path a \<in> set (branches parent)")
    case False
    with Cons show ?thesis by simp
  next
    case True
    obtain r1 w1 where l: "Add_link env parent (model_unit parent a) w = (r1, w1)"
      by (cases "Add_link env parent (model_unit parent a) w")
    obtain r2 w2 where s: "save_unit env (plugin_unit env (model_unit parent a)) w1 = (r2, w2)"
      by (cases "save_unit env (plugin_unit env (model_unit parent a)) w1")
    note lf = Add_link_frame [OF l] and sf = save_unit_frame [OF s]
    show ?thesis
    proof (cases r1)
      case (Inl x)
      with Cons.prems True l lf show ?thesis by (auto simp add: Let_def)
    next
      case r1: (Inr u)
      show ?thesis
      proof (cases r2)
        case (Inl x)
        with Cons.prems True l s r1 lf sf show ?thesis by (auto simp add: Let_def)
      next
        case (Inr u2)
        with Cons.prems True l s r1 have "add_each env parent refs w2 = (r, w')"
          by (simp add: Let_def)
        from Cons.IH [OF this] lf sf show ?thesis by simp
      qed
    qed
  qed
qed

lemma add_each_nodes_kept:
  "add_each env parent refs w = (r, w') \<Longrightarrow> nodes w p = Some n \<Longrightarrow> nodes w' p = Some n"
proof (induction refs arbitrary: w)
  case Nil
  then show ?case by simp
next
  case (Cons a refs)
  show ?case
  proof (cases "ref_path a \<in> set (branches parent)")
    case False
    with Cons show ?thesis by simp
  next
    case True
    obtain r1 w1 where l: "Add_link env parent (model_unit parent a) w = (r1, w1)"
      by (cases "Add_link env parent (model_unit parent a) w")
    obtain r2 w2 where s: "save_unit env (plugin_unit env (model_unit parent a)) w1 = (r2, w2)"
      by (cases "save_unit env (plugin_unit env (model_unit parent a)) w1")
    have n1: "nodes w1 p = Some n"
      using Add_link_nodes [OF l] Cons.prems(2) by blast
    have n2: "nodes w2 p = Some n"
      using save_unit_frame [OF s] n1 by simp
    show ?thesis
    proof (cases r1)
      case (Inl x)
      with Cons.prems True l n1 show ?thesis by (auto simp add: Let_def)
    next
      case r1: (Inr u)
      show ?thesis
      proof (cases r2)
        case (Inl x)
        with Cons.prems True l s r1 n2 show ?thesis by (auto simp add: Let_def)
      next
        case (Inr u2)
        with Cons.prems True l s r1 have "add_each env parent refs w2 = (r, w')"
          by (simp add: Let_def)
        from Cons.IH [OF this n2] show ?thesis .
      qed
    qed
  qed
qed

text \<open>The units saved: those of an initial segment of the listed heads, in their order.\<close>

lemma add_each_saved:
  "add_each env parent refs w = (r, w') \<Longrightarrow>
   \<exists>k \<le> length (filter (\<lambda>a. ref_path a \<in> set (branches parent)) refs).
     saved_units w' = saved_units w @
       map (\<lambda>a. plugin_unit env (model_unit parent a))
         (take k (filter (\<lambda>a. ref_path a \<in> set (branches parent)) refs)) \<and>
     (r = Inr () \<longrightarrow> k = length (filter (\<lambda>a. ref_path a \<in> set (branches parent)) refs))"
proof (induction refs arbitrary: w)
  case Nil
  then show ?case by simp
next
  case (Cons a refs)
  show ?case
  proof (cases "ref_path a \<in> set (branches parent)")
    case False
    with Cons show ?thesis by simp
  next
    case True
    obtain r1 w1 where l: "Add_link env parent (model_unit parent a) w = (r1, w1)"
      by (cases "Add_link env parent (model_unit parent a) w")
    obtain r2 w2 where s: "save_unit env (plugin_unit env (model_unit parent a)) w1 = (r2, w2)"
      by (cases "save_unit env (plugin_unit env (model_unit parent a)) w1")
    note lf = Add_link_frame [OF l] and sf = save_unit_frame [OF s]
    show ?thesis
    proof (cases r1)
      case (Inl x)
      with Cons.prems True l lf show ?thesis
        by (intro exI [of _ 0]) (auto simp add: Let_def)
    next
      case r1: (Inr u)
      show ?thesis
      proof (cases r2)
        case (Inl x)
        with Cons.prems True l s r1 lf sf show ?thesis
          by (intro exI [of _ 0]) (auto simp add: Let_def)
      next
        case (Inr u2)
        with Cons.prems True l s r1 have "add_each env parent refs w2 = (r, w')"
          by (simp add: Let_def)
        from Cons.IH [OF this] obtain k where
          k: "k \<le> length (filter (\<lambda>a. ref_path a \<in> set (branches parent)) refs)"
          "saved_units w' = saved_units w2 @
             map (\<lambda>a. plugin_unit env (model_unit parent a))
               (take k (filter (\<lambda>a. ref_path a \<in> set (branches parent)) refs))"
          "r = Inr () \<longrightarrow> k = length (filter (\<lambda>a. ref_path a \<in> set (branches parent)) refs)"
          by blast
        with True lf sf Inr show ?thesis
          by (intro exI [of _ "Suc k"]) simp
      qed
    qed
  qed
qed

text \<open>The calls made: for each listed head the link, then the save.\<close>

lemma add_each_trace:
  "add_each env parent refs w = (r, w') \<Longrightarrow>
   \<exists>j. trace w' = trace w @
       take j (concat (map (\<lambda>a. [OsSymlink (storage_path parent) (model_unit_storage_path env (model_unit parent a)),
                                 SaveUnit (plugin_unit env (model_unit parent a))])
         (filter (\<lambda>a. ref_path a \<in> set (branches parent)) refs))) \<and>
     (r = Inr () \<longrightarrow> j = 2 * length (filter (\<lambda>a. ref_path a \<in> set (branches parent)) refs))"
proof (induction refs arbitrary: w)
  case Nil
  then show ?case by simp
next
  case (Cons a refs)
  show ?case
  proof (cases "ref_path a \<in> set (branches parent)")
    case False
    with Cons show ?thesis by simp
  next
    case True
    obtain r1 w1 where l: "Add_link env parent (model_unit parent a) w = (r1, w1)"
      by (cases "Add_link env parent (model_unit parent a) w")
    obtain r2 w2 where s: "save_unit env (plugin_unit env (model_unit parent a)) w1 = (r2, w2)"
      by (cases "save_unit env (plugin_unit env (model_unit parent a)) w1")
    note lf = Add_link_frame [OF l] and sf = save_unit_frame [OF s]
    show ?thesis
    proof (cases r1)
      case (Inl x)
      with Cons.prems True l lf show ?thesis
        by (intro exI [of _ 1]) (auto simp add: Let_def)
    next
      case r1: (Inr u)
      show ?thesis
      proof (cases r2)
        case (Inl x)
        with Cons.prems True l s r1 lf sf show ?thesis
          by (intro exI [of _ 2]) (auto simp add: Let_def)
      next
        case (Inr u2)
        with Cons.prems True l s r1 have "add_each env parent refs w2 = (r, w')"
          by (simp add: Let_def)
        from Cons.IH [OF this] obtain j where
          j: "trace w' = trace w2 @
             take j (concat (map (\<lambda>a. [OsSymlink (storage_path parent) (model_unit_storage_path env (model_unit parent a)),
                                 SaveUnit (plugin_unit env (model_unit parent a))])
               (filter (\<lambda>a. ref_path a \<in> set (branches parent)) refs)))"
          "r = Inr () \<longrightarrow> j = 2 * length (filter (\<lambda>a. ref_path a \<in> set (branches parent)) refs)"
          by blast
        with True lf sf show ?thesis
          by (intro exI [of _ "Suc (Suc j)"]) simp
      qed
    qed
  qed
qed

text \<open>Every unit saved by the loop has its link in place.\<close>

lemma add_each_saved_linked:
  "add_each env parent refs w = (r, w') \<Longrightarrow>
   u \<in> set (drop (length (saved_units w)) (saved_units w')) \<Longrightarrow>
   nodes w' (unit_storage_path u) = Some (Symlink (storage_path parent))"
proof (induction refs arbitrary: w)
  case Nil
  then show ?case by simp
next
  case (Cons a refs)
  show ?case
  proof (cases "ref_path a \<in> set (branches parent)")
    case False
    with Cons show ?thesis by simp
  next
    case True
    obtain r1 w1 where l: "Add_link env parent (model_unit parent a) w = (r1, w1)"
      by (cases "Add_link env parent (model_unit parent a) w")
    obtain r2 w2 where s: "save_unit env (plugin_unit env (model_unit parent a)) w1 = (r2, w2)"
      by (cases "save_unit env (plugin_unit env (model_unit parent a)) w1")
    note lf = Add_link_frame [OF l] and sf = save_unit_frame [OF s]
    show ?thesis
    proof (cases r1)
      case (Inl x)
      with Cons.prems True l lf show ?thesis by (auto simp add: Let_def)
    next
      case r1: (Inr u1)
      show ?thesis
      proof (cases r2)
        case (Inl x)
        with Cons.prems True l s r1 lf sf show ?thesis by (auto simp add: Let_def)
      next
        case (Inr u2)
        with Cons.prems True l s r1 have rest: "add_each env parent refs w2 = (r, w')"
          by (simp add: Let_def)
        from add_each_saved [OF rest] obtain k where
          sv: "saved_units w' = saved_units w2 @
             map (\<lambda>a. plugin_unit env (model_unit parent a))
               (take k (filter (\<lambda>a. ref_path a \<in> set (branches parent)) refs))"
          by blast
        have s2: "saved_units w2 = saved_units w @ [plugin_unit env (model_unit parent a)]"
          using lf sf Inr by simp
        have "u = plugin_unit env (model_unit parent a) \<or>
              u \<in> set (drop (length (saved_units w2)) (saved_units w'))"
          using Cons.prems(2) sv s2 by auto
        then show ?thesis
        proof
          assume u: "u = plugin_unit env (model_unit parent a)"
          have "nodes w1 (model_unit_storage_path env (model_unit parent a)) =
                  Some (Symlink (storage_path parent))"
            using Add_link_nodes [OF l] r1 by simp
          then have "nodes w2 (unit_storage_path u) = Some (Symlink (storage_path parent))"
            using sf u by (simp add: plugin_unit_def)
          then show ?thesis by (rule add_each_nodes_kept [OF rest])
        next
          assume "u \<in> set (drop (length (saved_units w2)) (saved_units w'))"
          then show ?thesis by (rule Cons.IH [OF rest])
        qed
      qed
    qed
  qed
qed

lemma add_each_no_branches:
  "branches parent = [] \<Longrightarrow> add_each env parent refs w = (Inr (), w)"
  by (induction refs) simp_all

text \<open>
  C7. \<open>Add.link\<close> with \<open>link\<close> the unit's storage path and \<open>target\<close> the storage path of
  the mirror. When nothing is at \<open>link\<close> (and the operating system raises no other error),
  the symbolic link to \<open>target\<close> is created. After any call that returned, \<open>link\<close> is a
  symbolic link to \<open>target\<close>, and a second call with the same unit returns as well,
  changing nothing but the trace. When \<open>link\<close> is occupied by a link to another target, a
  file or a directory, the call raises the \<open>OSError\<close> of \<open>os.symlink\<close> and the file system
  is left as it was.
\<close>

theorem Add_link_idempotent_conflict_detecting:
  "(fs_fault env OpSymlink (model_unit_storage_path env unit) = None \<and>
    nodes w (model_unit_storage_path env unit) = None \<longrightarrow>
      Add_link env parent unit w =
        (Inr (), (log_call (OsSymlink (storage_path parent) (model_unit_storage_path env unit)) w)
           \<lparr>nodes := (nodes w)(model_unit_storage_path env unit \<mapsto> Symlink (storage_path parent))\<rparr>)) \<and>
   (Add_link env parent unit w = (Inr (), w1) \<longrightarrow>
      nodes w1 (model_unit_storage_path env unit) = Some (Symlink (storage_path parent)) \<and>
      Add_link env parent unit w1 =
        (Inr (), log_call (OsSymlink (storage_path parent) (model_unit_storage_path env unit)) w1)) \<and>
   (nodes w (model_unit_storage_path env unit) = Some n \<and> n \<noteq> Symlink (storage_path parent) \<longrightarrow>
      (\<exists>e. Add_link env parent unit w =
         (Inl (OSError e), log_call (OsSymlink (storage_path parent) (model_unit_storage_path env unit)) w)) \<and>
      nodes (snd (Add_link env parent unit w)) = nodes w)"
proof (intro conjI impI)
  assume "fs_fault env OpSymlink (model_unit_storage_path env unit) = None \<and>
    nodes w (model_unit_storage_path env unit) = None"
  then show "Add_link env parent unit w =
        (Inr (), (log_call (OsSymlink (storage_path parent) (model_unit_storage_path env unit)) w)
           \<lparr>nodes := (nodes w)(model_unit_storage_path env unit \<mapsto> Symlink (storage_path parent))\<rparr>)"
    by (simp add: Add_link_def os_symlink_def Let_def log_call_simps)
next
  assume a: "Add_link env parent unit w = (Inr (), w1)"
  show n1: "nodes w1 (model_unit_storage_path env unit) = Some (Symlink (storage_path parent))"
    using Add_link_nodes [OF a] by simp
  have "fs_fault env OpSymlink (model_unit_storage_path env unit) = None \<or>
        fs_fault env OpSymlink (model_unit_storage_path env unit) = Some EEXIST"
    using a by (auto simp add: Add_link_def os_symlink_def Let_def split: option.splits if_splits)
  with n1 show "Add_link env parent unit w1 =
        (Inr (), log_call (OsSymlink (storage_path parent) (model_unit_storage_path env unit)) w1)"
    by (auto simp add: Add_link_def os_symlink_def Let_def log_call_simps os_path_islink_def
        os_readlink_def)
next
  assume c: "nodes w (model_unit_storage_path env unit) = Some n \<and> n \<noteq> Symlink (storage_path parent)"
  then show "\<exists>e. Add_link env parent unit w =
         (Inl (OSError e), log_call (OsSymlink (storage_path parent) (model_unit_storage_path env unit)) w)"
    by (cases n)
      (auto simp add: Add_link_def os_symlink_def Let_def log_call_simps os_path_islink_def
        os_readlink_def split: option.splits)
  then show "nodes (snd (Add_link env parent unit w)) = nodes w"
    by (auto simp add: log_call_simps)
qed

theorem Add_link_idempotent_conflict_detecting_witness:
  "fst (Add_link example_env (example_main []) example_unit example_world) = Inr () \<and>
   nodes (snd (Add_link example_env (example_main []) example_unit example_world))
     ''/shared/ostree/r1/links/c1'' = Some (Symlink ''/shared/ostree/r1/content'') \<and>
   fst (Add_link example_env (example_main []) example_unit
     (snd (Add_link example_env (example_main []) example_unit example_world))) = Inr () \<and>
   fst (Add_link example_env (example_main []) example_unit
     (example_world\<lparr>nodes := [''/shared/ostree/r1/links/c1'' \<mapsto> Symlink ''/elsewhere'']\<rparr>)) =
     Inl (OSError EEXIST) \<and>
   nodes (snd (Add_link example_env (example_main []) example_unit
     (example_world\<lparr>nodes := [''/shared/ostree/r1/links/c1'' \<mapsto> Symlink ''/elsewhere'']\<rparr>)))
     ''/shared/ostree/r1/links/c1'' = Some (Symlink ''/elsewhere'')"
proof -
  let ?p = "example_main []"
  let ?w1 = "snd (Add_link example_env ?p example_unit example_world)"
  let ?wc = "example_world\<lparr>nodes := [''/shared/ostree/r1/links/c1'' \<mapsto> Symlink ''/elsewhere'']\<rparr>"
  have sp: "model_unit_storage_path example_env example_unit = ''/shared/ostree/r1/links/c1''"
    "storage_path ?p = ''/shared/ostree/r1/content''"
    by (simp_all add: example_env_def example_unit_def example_refs_def model_unit_def example_main_def)
  have free: "fs_fault example_env OpSymlink (model_unit_storage_path example_env example_unit) = None \<and>
      nodes example_world (model_unit_storage_path example_env example_unit) = None"
    by (simp add: example_env_def example_world_def)
  note first = Add_link_idempotent_conflict_detecting [THEN conjunct1, rule_format, OF free, of ?p]
  have first': "Add_link example_env ?p example_unit example_world = (Inr (), ?w1)"
    using first by simp
  note again = Add_link_idempotent_conflict_detecting [THEN conjunct2, THEN conjunct1, rule_format, OF first']
  have occ: "nodes ?wc (model_unit_storage_path example_env example_unit) = Some (Symlink ''/elsewhere'') \<and>
      Symlink ''/elsewhere'' \<noteq> Symlink (storage_path ?p)"
    by (simp add: sp)
  note conflict = Add_link_idempotent_conflict_detecting [THEN conjunct2, THEN conjunct2, rule_format, OF occ]
  have e: "fst (Add_link example_env ?p example_unit ?wc) = Inl (OSError EEXIST)"
    by (simp add: Add_link_def os_symlink_def Let_def log_call_def os_path_islink_def
        os_readlink_def example_env_def example_unit_def example_refs_def model_unit_def
        example_main_def example_world_def)
  have a1: "fst (Add_link example_env ?p example_unit example_world) = Inr ()"
    using arg_cong [OF first', of fst] by simp
  have a2: "nodes ?w1 ''/shared/ostree/r1/links/c1'' = Some (Symlink ''/shared/ostree/r1/content'')"
    using again by (simp add: sp)
  have a3: "fst (Add_link example_env ?p example_unit ?w1) = Inr ()"
    using again by simp
  have a4: "nodes (snd (Add_link example_env ?p example_unit ?wc)) ''/shared/ostree/r1/links/c1'' =
      Some (Symlink ''/elsewhere'')"
    using conflict by simp
  from a1 a2 a3 e a4 show ?thesis by blast
qed

text \<open>
  C8. \<open>Add.process_main\<close>, when \<open>list_refs\<close> yields the heads \<open>refs\<close>: the units saved are
  those of the heads whose path is in the configured branch list, one unit per such head
  and in the order of the enumeration (all of them when the step returns, an initial
  segment when a link or a save raises). A head that is not listed is skipped: no unit, no
  link and no call for it. The step leaves the state of the library as it was, and when it
  returns its only call to the library was \<open>list_refs\<close>, so no head is deleted or changed.
\<close>

theorem Add_process_main_one_unit_per_listed_head:
  "lib_list_refs env (ext w) (storage_path parent) = Inr refs \<and>
   Add_process_main env parent w = (r, w') \<longrightarrow>
     ext w' = ext w \<and>
     (\<exists>k \<le> length (filter (\<lambda>a. ref_path a \<in> set (branches parent)) refs).
        saved_units w' = saved_units w @
          map (\<lambda>a. plugin_unit env (model_unit parent a))
            (take k (filter (\<lambda>a. ref_path a \<in> set (branches parent)) refs)) \<and>
        (r = Inr () \<longrightarrow> k = length (filter (\<lambda>a. ref_path a \<in> set (branches parent)) refs))) \<and>
     (r = Inr () \<longrightarrow>
        trace w' = trace w @ RepositoryListRefs (storage_path parent) #
          concat (map (\<lambda>a. [OsSymlink (storage_path parent)
                                (model_unit_storage_path env (model_unit parent a)),
                              SaveUnit (plugin_unit env (model_unit parent a))])
            (filter (\<lambda>a. ref_path a \<in> set (branches parent)) refs)))"
proof (intro impI)
  let ?w1 = "log_call (RepositoryListRefs (storage_path parent)) w"
  assume a: "lib_list_refs env (ext w) (storage_path parent) = Inr refs \<and>
   Add_process_main env parent w = (r, w')"
  then have "lib_list_refs env (ext w) (storage_path parent) = Inr refs"
    and "Add_process_main env parent w = (r, w')"
    by simp_all
  then have run: "add_each env parent refs ?w1 = (r, w')"
    by (simp add: Add_process_main_def Let_def log_call_simps)
  have e: "ext w' = ext w"
    using add_each_frame [OF run] by (simp add: log_call_simps)
  have s: "\<exists>k \<le> length (filter (\<lambda>a. ref_path a \<in> set (branches parent)) refs).
        saved_units w' = saved_units w @
          map (\<lambda>a. plugin_unit env (model_unit parent a))
            (take k (filter (\<lambda>a. ref_path a \<in> set (branches parent)) refs)) \<and>
        (r = Inr () \<longrightarrow> k = length (filter (\<lambda>a. ref_path a \<in> set (branches parent)) refs))"
    using add_each_saved [OF run] by (simp add: log_call_simps)
  have t: "r = Inr () \<longrightarrow>
        trace w' = trace w @ RepositoryListRefs (storage_path parent) #
          concat (map (\<lambda>a. [OsSymlink (storage_path parent)
                                (model_unit_storage_path env (model_unit parent a)),
                              SaveUnit (plugin_unit env (model_unit parent a))])
            (filter (\<lambda>a. ref_path a \<in> set (branches parent)) refs))"
    using add_each_trace [OF run] by (auto simp add: log_call_simps length_concat o_def sum_list_triv)
  from e s t show "ext w' = ext w \<and>
     (\<exists>k \<le> length (filter (\<lambda>a. ref_path a \<in> set (branches parent)) refs).
        saved_units w' = saved_units w @
          map (\<lambda>a. plugin_unit env (model_unit parent a))
            (take k (filter (\<lambda>a. ref_path a \<in> set (branches parent)) refs)) \<and>
        (r = Inr () \<longrightarrow> k = length (filter (\<lambda>a. ref_path a \<in> set (branches parent)) refs))) \<and>
     (r = Inr () \<longrightarrow>
        trace w' = trace w @ RepositoryListRefs (storage_path parent) #
          concat (map (\<lambda>a. [OsSymlink (storage_path parent)
                                (model_unit_storage_path env (model_unit parent a)),
                              SaveUnit (plugin_unit env (model_unit parent a))])
            (filter (\<lambda>a. ref_path a \<in> set (branches parent)) refs)))"
    by blast
qed

theorem Add_process_main_one_unit_per_listed_head_witness:
  "fst (Add_process_main example_env (example_main [''stable/x86_64/os'']) example_world) = Inr () \<and>
   saved_units (snd (Add_process_main example_env (example_main [''stable/x86_64/os'']) example_world)) =
     [\<lparr>type_id = ''ostree'',
       unit_key = [(''remote_id'', ''r1''), (''branch'', ''stable/x86_64/os''), (''commit'', ''c1'')],
       metadata = [],
       unit_storage_path = ''/shared/ostree/r1/links/c1''\<rparr>] \<and>
   trace (snd (Add_process_main example_env (example_main [''stable/x86_64/os'']) example_world)) =
     [RepositoryListRefs ''/shared/ostree/r1/content'',
      OsSymlink ''/shared/ostree/r1/content'' ''/shared/ostree/r1/links/c1'',
      SaveUnit \<lparr>type_id = ''ostree'',
       unit_key = [(''remote_id'', ''r1''), (''branch'', ''stable/x86_64/os''), (''commit'', ''c1'')],
       metadata = [],
       unit_storage_path = ''/shared/ostree/r1/links/c1''\<rparr>]"
proof -
  let ?p = "example_main [''stable/x86_64/os'']"
  let ?w' = "snd (Add_process_main example_env ?p example_world)"
  have refs: "lib_list_refs example_env (ext example_world) (storage_path ?p) = Inr example_refs"
    by (simp add: example_env_def)
  have ok: "fst (Add_process_main example_env ?p example_world) = Inr ()"
    by (simp add: Add_process_main_def Add_link_def os_symlink_def save_unit_def Let_def
        log_call_def example_env_def example_refs_def model_unit_def plugin_unit_def
        example_main_def example_world_def)
  then have run: "Add_process_main example_env ?p example_world = (Inr (), ?w')"
    by (simp add: prod_eq_iff)
  have f: "filter (\<lambda>a. ref_path a \<in> set (branches ?p)) example_refs = [hd example_refs]"
    by (simp add: example_main_def example_refs_def)
  from Add_process_main_one_unit_per_listed_head [rule_format, OF conjI [OF refs run]]
  have "saved_units ?w' = saved_units example_world @
          map (\<lambda>a. plugin_unit example_env (model_unit ?p a)) [hd example_refs]"
    and "trace ?w' = trace example_world @ RepositoryListRefs (storage_path ?p) #
          concat (map (\<lambda>a. [OsSymlink (storage_path ?p)
                                (model_unit_storage_path example_env (model_unit ?p a)),
                              SaveUnit (plugin_unit example_env (model_unit ?p a))])
            [hd example_refs])"
    unfolding f by auto
  then have "saved_units ?w' =
     [\<lparr>type_id = ''ostree'',
       unit_key = [(''remote_id'', ''r1''), (''branch'', ''stable/x86_64/os''), (''commit'', ''c1'')],
       metadata = [],
       unit_storage_path = ''/shared/ostree/r1/links/c1''\<rparr>]"
    and "trace ?w' =
     [RepositoryListRefs ''/shared/ostree/r1/content'',
      OsSymlink ''/shared/ostree/r1/content'' ''/shared/ostree/r1/links/c1'',
      SaveUnit \<lparr>type_id = ''ostree'',
       unit_key = [(''remote_id'', ''r1''), (''branch'', ''stable/x86_64/os''), (''commit'', ''c1'')],
       metadata = [],
       unit_storage_path = ''/shared/ostree/r1/links/c1''\<rparr>]"
    by (simp_all add: example_env_def example_refs_def model_unit_def plugin_unit_def
        example_main_def example_world_def)
  with ok show ?thesis by blast
qed

text \<open>
  C9. In \<open>Add.process_main\<close> the link comes before the save. Every unit the step has saved,
  whatever the outcome of the step, has at its storage path a symbolic link to the storage
  path of the mirror. The calls after \<open>list_refs\<close> are, for the listed heads in turn,
  \<open>os.symlink\<close> and then \<open>save_unit\<close> for the same head. When the heads before a listed
  head \<open>a\<close> have been processed and \<open>Add.link\<close> raises for \<open>a\<close>, the step raises that
  exception with nothing saved for \<open>a\<close>, its last call being the \<open>os.symlink\<close> for \<open>a\<close>: no
  later head is processed.
\<close>

theorem Add_process_main_link_before_save:
  "(Add_process_main env parent w = (r, w') \<and>
    u \<in> set (drop (length (saved_units w)) (saved_units w')) \<longrightarrow>
      nodes w' (unit_storage_path u) = Some (Symlink (storage_path parent))) \<and>
   (lib_list_refs env (ext w) (storage_path parent) = Inr refs \<and>
    Add_process_main env parent w = (r, w') \<longrightarrow>
      (\<exists>j. trace w' = trace w @ RepositoryListRefs (storage_path parent) #
         take j (concat (map (\<lambda>a. [OsSymlink (storage_path parent)
                                     (model_unit_storage_path env (model_unit parent a)),
                                   SaveUnit (plugin_unit env (model_unit parent a))])
           (filter (\<lambda>a. ref_path a \<in> set (branches parent)) refs))))) \<and>
   (lib_list_refs env (ext w) (storage_path parent) = Inr (pre @ a # post) \<and>
    add_each env parent pre (log_call (RepositoryListRefs (storage_path parent)) w) = (Inr (), w1) \<and>
    ref_path a \<in> set (branches parent) \<and>
    Add_link env parent (model_unit parent a) w1 = (Inl x, w2) \<longrightarrow>
      Add_process_main env parent w = (Inl x, w2) \<and>
      saved_units w2 = saved_units w1 \<and>
      trace w2 = trace w1 @
        [OsSymlink (storage_path parent) (model_unit_storage_path env (model_unit parent a))])"
proof (intro conjI impI)
  let ?w0 = "log_call (RepositoryListRefs (storage_path parent)) w"
  assume a: "Add_process_main env parent w = (r, w') \<and>
    u \<in> set (drop (length (saved_units w)) (saved_units w'))"
  then have run: "Add_process_main env parent w = (r, w')"
    and u: "u \<in> set (drop (length (saved_units w)) (saved_units w'))"
    by simp_all
  show "nodes w' (unit_storage_path u) = Some (Symlink (storage_path parent))"
  proof (cases "lib_list_refs env (ext w) (storage_path parent)")
    case (Inl e)
    with run u show ?thesis
      by (auto simp add: Add_process_main_def Let_def log_call_simps)
  next
    case (Inr rs)
    with run have "add_each env parent rs ?w0 = (r, w')"
      by (simp add: Add_process_main_def Let_def log_call_simps)
    from add_each_saved_linked [OF this] u show ?thesis
      by (simp add: log_call_simps)
  qed
next
  let ?w0 = "log_call (RepositoryListRefs (storage_path parent)) w"
  assume "lib_list_refs env (ext w) (storage_path parent) = Inr refs \<and>
    Add_process_main env parent w = (r, w')"
  then have "lib_list_refs env (ext w) (storage_path parent) = Inr refs"
    and "Add_process_main env parent w = (r, w')"
    by simp_all
  then have "add_each env parent refs ?w0 = (r, w')"
    by (simp add: Add_process_main_def Let_def log_call_simps)
  from add_each_trace [OF this]
  show "\<exists>j. trace w' = trace w @ RepositoryListRefs (storage_path parent) #
         take j (concat (map (\<lambda>a. [OsSymlink (storage_path parent)
                                     (model_unit_storage_path env (model_unit parent a)),
                                   SaveUnit (plugin_unit env (model_unit parent a))])
           (filter (\<lambda>a. ref_path a \<in> set (branches parent)) refs)))"
    by (auto simp add: log_call_simps)
next
  let ?w0 = "log_call (RepositoryListRefs (storage_path parent)) w"
  assume b: "lib_list_refs env (ext w) (storage_path parent) = Inr (pre @ a # post) \<and>
    add_each env parent pre ?w0 = (Inr (), w1) \<and>
    ref_path a \<in> set (branches parent) \<and>
    Add_link env parent (model_unit parent a) w1 = (Inl x, w2)"
  then have refs: "lib_list_refs env (ext w) (storage_path parent) = Inr (pre @ a # post)"
    and pre: "add_each env parent pre ?w0 = (Inr (), w1)"
    and listed: "ref_path a \<in> set (branches parent)"
    and link: "Add_link env parent (model_unit parent a) w1 = (Inl x, w2)"
    by simp_all
  from refs pre listed link show "Add_process_main env parent w = (Inl x, w2)"
    by (simp add: Add_process_main_def Let_def log_call_simps add_each_append)
  from Add_link_frame [OF link] show "saved_units w2 = saved_units w1" by simp
  from Add_link_frame [OF link] show "trace w2 = trace w1 @
        [OsSymlink (storage_path parent) (model_unit_storage_path env (model_unit parent a))]"
    by simp
qed


theorem Add_process_main_link_before_save_witness:
  "nodes (snd (Add_process_main example_env (example_main [''stable/x86_64/os'']) example_world))
     ''/shared/ostree/r1/links/c1'' = Some (Symlink ''/shared/ostree/r1/content'') \<and>
   fst (Add_process_main example_env (example_main [''stable/x86_64/os'', ''testing/x86_64/os''])
     (example_world\<lparr>nodes := [''/shared/ostree/r1/links/c1'' \<mapsto> File ''data'' 420]\<rparr>)) =
     Inl (OSError EEXIST) \<and>
   saved_units (snd (Add_process_main example_env
     (example_main [''stable/x86_64/os'', ''testing/x86_64/os''])
     (example_world\<lparr>nodes := [''/shared/ostree/r1/links/c1'' \<mapsto> File ''data'' 420]\<rparr>))) = [] \<and>
   trace (snd (Add_process_main example_env
     (example_main [''stable/x86_64/os'', ''testing/x86_64/os''])
     (example_world\<lparr>nodes := [''/shared/ostree/r1/links/c1'' \<mapsto> File ''data'' 420]\<rparr>))) =
     [RepositoryListRefs ''/shared/ostree/r1/content'',
      OsSymlink ''/shared/ostree/r1/content'' ''/shared/ostree/r1/links/c1'']"
proof -
  let ?p1 = "example_main [''stable/x86_64/os'']"
  let ?w' = "snd (Add_process_main example_env ?p1 example_world)"
  let ?u = "plugin_unit example_env example_unit"
  have run: "Add_process_main example_env ?p1 example_world = (Inr (), ?w')"
    by (simp add: prod_eq_iff)
      (simp add: Add_process_main_def Add_link_def os_symlink_def save_unit_def Let_def
        log_call_def example_env_def example_refs_def model_unit_def plugin_unit_def
        example_main_def example_world_def)
  have saved: "?u \<in> set (drop (length (saved_units example_world)) (saved_units ?w'))"
    by (simp add: Add_process_main_def Add_link_def os_symlink_def save_unit_def Let_def
        log_call_def example_env_def example_refs_def model_unit_def plugin_unit_def
        example_main_def example_world_def example_unit_def)
  have sp: "unit_storage_path ?u = ''/shared/ostree/r1/links/c1''"
    "storage_path ?p1 = ''/shared/ostree/r1/content''"
    by (simp_all add: example_env_def example_unit_def example_refs_def model_unit_def
        plugin_unit_def example_main_def)
  note linked = Add_process_main_link_before_save [THEN conjunct1, rule_format,
      OF conjI [OF run saved]]
  let ?p2 = "example_main [''stable/x86_64/os'', ''testing/x86_64/os'']"
  let ?wc = "example_world\<lparr>nodes := [''/shared/ostree/r1/links/c1'' \<mapsto> File ''data'' 420]\<rparr>"
  let ?w0 = "log_call (RepositoryListRefs (storage_path ?p2)) ?wc"
  let ?a = "hd example_refs"
  let ?w2 = "snd (Add_link example_env ?p2 (model_unit ?p2 ?a) ?w0)"
  have refs: "lib_list_refs example_env (ext ?wc) (storage_path ?p2) = Inr ([] @ ?a # tl example_refs)"
    by (simp add: example_env_def example_refs_def)
  have pre: "add_each example_env ?p2 [] ?w0 = (Inr (), ?w0)"
    by simp
  have listed: "ref_path ?a \<in> set (branches ?p2)"
    by (simp add: example_refs_def example_main_def)
  have link: "Add_link example_env ?p2 (model_unit ?p2 ?a) ?w0 = (Inl (OSError EEXIST), ?w2)"
    by (simp add: prod_eq_iff)
      (simp add: Add_link_def os_symlink_def Let_def os_path_islink_def os_readlink_def
        log_call_def example_env_def example_refs_def model_unit_def example_main_def
        example_world_def)
  note stop = Add_process_main_link_before_save [THEN conjunct2, THEN conjunct2, rule_format,
      OF conjI [OF refs conjI [OF pre conjI [OF listed link]]]]
  have c1: "nodes ?w' ''/shared/ostree/r1/links/c1'' = Some (Symlink ''/shared/ostree/r1/content'')"
    using linked by (simp add: sp)
  have c2: "fst (Add_process_main example_env ?p2 ?wc) = Inl (OSError EEXIST)"
    using stop by simp
  have c3: "saved_units (snd (Add_process_main example_env ?p2 ?wc)) = []"
    using stop by (simp add: log_call_simps example_world_def)
  have c4: "trace (snd (Add_process_main example_env ?p2 ?wc)) =
     [RepositoryListRefs ''/shared/ostree/r1/content'',
      OsSymlink ''/shared/ostree/r1/content'' ''/shared/ostree/r1/links/c1'']"
    using stop by (simp add: log_call_simps example_world_def example_env_def example_refs_def
        model_unit_def example_main_def)
  from c1 c2 c3 c4 show ?thesis by blast
qed

subsection \<open>No configured branch list\<close>

text \<open>
  C10. When the branch list is not configured, \<open>Main.__init__\<close> takes the empty list:
  \<open>Pull.process_main\<close> returns without a call and leaves the world as it was; and
  \<open>Add.process_main\<close>, whatever heads \<open>list_refs\<close> yields, returns having done nothing but
  that call: no link and no unit. So does \<open>Add.process_main\<close> run in the world that
  \<open>Pull.process_main\<close> has left: the two steps in a row return.
\<close>

theorem absent_branches_key_no_pull_no_unit:
  "IMPORTER_CONFIG_KEY_BRANCHES cfg = None \<longrightarrow>
     branches (Main_init env cfg) = [] \<and>
     Pull_process_main env (Main_init env cfg) w = (Inr (), w) \<and>
     (lib_list_refs env (ext w) (storage_path (Main_init env cfg)) = Inr refs \<longrightarrow>
        Add_process_main env (Main_init env cfg) w =
          (Inr (), log_call (RepositoryListRefs (storage_path (Main_init env cfg))) w) \<and>
        Add_process_main env (Main_init env cfg) (snd (Pull_process_main env (Main_init env cfg) w)) =
          (Inr (), log_call (RepositoryListRefs (storage_path (Main_init env cfg))) w))"
proof (intro impI)
  assume none: "IMPORTER_CONFIG_KEY_BRANCHES cfg = None"
  then have b: "branches (Main_init env cfg) = []"
    by (simp add: Main_init_def)
  then have p: "Pull_process_main env (Main_init env cfg) w = (Inr (), w)"
    by (simp add: Pull_process_main_def)
  have a: "lib_list_refs env (ext w) (storage_path (Main_init env cfg)) = Inr refs \<longrightarrow>
        Add_process_main env (Main_init env cfg) w =
          (Inr (), log_call (RepositoryListRefs (storage_path (Main_init env cfg))) w)"
    using b by (simp add: Add_process_main_def Let_def log_call_simps add_each_no_branches)
  with b p show "branches (Main_init env cfg) = [] \<and>
     Pull_process_main env (Main_init env cfg) w = (Inr (), w) \<and>
     (lib_list_refs env (ext w) (storage_path (Main_init env cfg)) = Inr refs \<longrightarrow>
        Add_process_main env (Main_init env cfg) w =
          (Inr (), log_call (RepositoryListRefs (storage_path (Main_init env cfg))) w) \<and>
        Add_process_main env (Main_init env cfg) (snd (Pull_process_main env (Main_init env cfg) w)) =
          (Inr (), log_call (RepositoryListRefs (storage_path (Main_init env cfg))) w))"
    by simp
qed

theorem absent_branches_key_no_pull_no_unit_witness:
  "Pull_process_main example_env
     (Main_init example_env (example_config\<lparr>IMPORTER_CONFIG_KEY_BRANCHES := None\<rparr>)) example_world =
     (Inr (), example_world) \<and>
   fst (Add_process_main example_env
     (Main_init example_env (example_config\<lparr>IMPORTER_CONFIG_KEY_BRANCHES := None\<rparr>)) example_world) =
     Inr () \<and>
   saved_units (snd (Add_process_main example_env
     (Main_init example_env (example_config\<lparr>IMPORTER_CONFIG_KEY_BRANCHES := None\<rparr>)) example_world)) =
     [] \<and>
   trace (snd (Add_process_main example_env
     (Main_init example_env (example_config\<lparr>IMPORTER_CONFIG_KEY_BRANCHES := None\<rparr>)) example_world)) =
     [RepositoryListRefs ''/shared/ostree/r1/content'']"
proof -
  let ?cfg = "example_config\<lparr>IMPORTER_CONFIG_KEY_BRANCHES := None\<rparr>"
  have none: "IMPORTER_CONFIG_KEY_BRANCHES ?cfg = None"
    by simp
  have refs: "lib_list_refs example_env (ext example_world) (storage_path (Main_init example_env ?cfg)) =
      Inr example_refs"
    by (simp add: example_env_def)
  have sp: "storage_path (Main_init example_env ?cfg) = ''/shared/ostree/r1/content''"
    by (simp add: Main_init_def example_env_def os_path_join_def join_step_def)
  note t = absent_branches_key_no_pull_no_unit [rule_format, OF none, of example_env example_world example_refs]
  from t refs show ?thesis
    by (simp add: log_call_simps sp example_world_def)
qed

subsection \<open>Remote: the files written in the working directory\<close>

lemma resolve_not_link:
  "resolve ns k p = Some q \<Longrightarrow> ns q \<noteq> Some (Symlink t)"
  by (induction ns k p rule: resolve.induct) (auto split: option.splits node.splits)


lemma write_file_frame:
  "write_file env p data w = (r, w1) \<Longrightarrow>
   trace w1 = trace w \<and> ext w1 = ext w \<and> saved_units w1 = saved_units w \<and>
   progress_reports w1 = progress_reports w"
  by (auto simp add: write_file_def split: option.splits node.splits)

lemma os_chmod_frame:
  "os_chmod env p m w = (r, w1) \<Longrightarrow>
   trace w1 = trace w \<and> ext w1 = ext w \<and> saved_units w1 = saved_units w \<and>
   progress_reports w1 = progress_reports w"
  by (auto simp add: os_chmod_def split: option.splits node.splits)








subsection \<open>Remote: the GPG keys of the remote\<close>

lemma Remote_ssl_key_path_frame:
  "Remote_ssl_key_path env cfg w = (r, w1) \<Longrightarrow> trace w1 = trace w \<and> ext w1 = ext w"
  by (auto simp add: Remote_ssl_key_path_def Let_def split: if_splits prod.splits sum.splits
      dest!: write_file_frame os_chmod_frame)

lemma Remote_ssl_cert_path_frame:
  "Remote_ssl_cert_path env cfg w = (r, w1) \<Longrightarrow> trace w1 = trace w \<and> ext w1 = ext w"
  by (auto simp add: Remote_ssl_cert_path_def Let_def split: if_splits prod.splits sum.splits
      dest!: write_file_frame)

lemma Remote_ssl_ca_path_frame:
  "Remote_ssl_ca_path env cfg w = (r, w1) \<Longrightarrow> trace w1 = trace w \<and> ext w1 = ext w"
  by (auto simp add: Remote_ssl_ca_path_def Let_def split: if_splits prod.splits sum.splits
      dest!: write_file_frame)

lemma impl_update_trace:
  "impl_update env impl w = (r, w1) \<Longrightarrow> trace w1 = trace w @ [RemoteUpdate impl]"
  by (auto simp add: impl_update_def Let_def log_call_simps split: prod.splits option.splits)

lemma impl_import_key_trace:
  "impl_import_key env impl path key_ids w = (r, w1) \<Longrightarrow>
   trace w1 = trace w @ [RemoteImportKey (impl_repository impl) (impl_id impl) path key_ids]"
  by (auto simp add: impl_import_key_def Let_def log_call_simps split: prod.splits option.splits)

text \<open>
  C4. \<open>Remote.gpg_keys\<close> imports every configured key blob into the keyring of the working
  directory, dropping the result of each import, and returns the key ids it then reads
  back from the keyring; it returns in every case, whatever the imports did. When
  \<open>Remote.add\<close> returns, the remote it has registered with \<open>update\<close> has \<open>gpg_validation\<close>
  true exactly when those key ids are not empty, and the key ids given to the remote with
  \<open>import_key\<close> are exactly those read back: the call is made with that list when it is
  not empty and is not made when it is empty.
\<close>

theorem Remote_add_gpg_trust:
  "Remote_gpg_keys env cfg w =
     ((os_path_join (get_working_dir env) [''pubring.gpg''],
       gpg_list_keys env
         (import_all env (get_working_dir env)
            (case IMPORTER_CONFIG_KEY_GPG_KEYS cfg of None \<Rightarrow> [] | Some ks \<Rightarrow> ks) (ext w))
         (get_working_dir env)),
      w\<lparr>ext := import_all env (get_working_dir env)
            (case IMPORTER_CONFIG_KEY_GPG_KEYS cfg of None \<Rightarrow> [] | Some ks \<Rightarrow> ks) (ext w)\<rparr>) \<and>
   (Remote_add env cfg parent repository w = (Inr (), w') \<longrightarrow>
      (\<exists>impl. impl_id impl = repo_id parent \<and> impl_repository impl = repository \<and>
         impl_gpg_validation impl = (snd (fst (Remote_gpg_keys env cfg w)) \<noteq> []) \<and>
         trace w' = trace w @ RemoteUpdate impl #
           (if snd (fst (Remote_gpg_keys env cfg w)) \<noteq> []
            then [RemoteImportKey repository (repo_id parent)
                    (os_path_join (get_working_dir env) [''pubring.gpg''])
                    (snd (fst (Remote_gpg_keys env cfg w)))]
            else [])))"
proof (intro conjI impI)
  show "Remote_gpg_keys env cfg w =
     ((os_path_join (get_working_dir env) [''pubring.gpg''],
       gpg_list_keys env
         (import_all env (get_working_dir env)
            (case IMPORTER_CONFIG_KEY_GPG_KEYS cfg of None \<Rightarrow> [] | Some ks \<Rightarrow> ks) (ext w))
         (get_working_dir env)),
      w\<lparr>ext := import_all env (get_working_dir env)
            (case IMPORTER_CONFIG_KEY_GPG_KEYS cfg of None \<Rightarrow> [] | Some ks \<Rightarrow> ks) (ext w)\<rparr>)"
    by (simp add: Remote_gpg_keys_def Let_def)
next
  assume run: "Remote_add env cfg parent repository w = (Inr (), w')"
  obtain path key_ids w1 where g: "Remote_gpg_keys env cfg w = ((path, key_ids), w1)"
    by (cases "Remote_gpg_keys env cfg w") auto
  have p: "path = os_path_join (get_working_dir env) [''pubring.gpg'']" and t1: "trace w1 = trace w"
    using g by (auto simp add: Remote_gpg_keys_def Let_def)
  obtain r2 w2 where k: "Remote_ssl_key_path env cfg w1 = (r2, w2)"
    by (cases "Remote_ssl_key_path env cfg w1")
  obtain r3 w3 where c: "Remote_ssl_cert_path env cfg w2 = (r3, w3)"
    by (cases "Remote_ssl_cert_path env cfg w2")
  obtain r4 w4 where a: "Remote_ssl_ca_path env cfg w3 = (r4, w4)"
    by (cases "Remote_ssl_ca_path env cfg w3")
  have t4: "trace w4 = trace w"
    using Remote_ssl_key_path_frame [OF k] Remote_ssl_cert_path_frame [OF c]
      Remote_ssl_ca_path_frame [OF a] t1 by simp
  from run g k c a obtain key_path cert_path ca_path where
    ok: "r2 = Inr key_path" "r3 = Inr cert_path" "r4 = Inr ca_path"
    by (auto simp add: Remote_add_def Let_def split: sum.splits)
  define impl where "impl =
      \<lparr>impl_id = repo_id parent, impl_repository = repository, impl_url = feed_url parent,
       impl_ssl_key_path = key_path, impl_ssl_cert_path = cert_path, impl_ssl_ca_path = ca_path,
       impl_ssl_validation = ssl_validation cfg, impl_gpg_validation = (length key_ids > 0),
       impl_proxy_url = proxy_url cfg\<rparr>"
  obtain r5 w5 where u: "impl_update env impl w4 = (r5, w5)"
    by (cases "impl_update env impl w4")
  from run g k c a ok u have r5: "r5 = Inr ()"
    and rest: "(if key_ids \<noteq> [] then impl_import_key env impl path key_ids w5 else (Inr (), w5)) =
       (Inr (), w')"
    by (auto simp add: Remote_add_def Let_def impl_def split: sum.splits)
  have t5: "trace w5 = trace w @ [RemoteUpdate impl]"
    using impl_update_trace [OF u] t4 by simp
  have t': "trace w' = trace w @ RemoteUpdate impl #
      (if key_ids \<noteq> [] then [RemoteImportKey repository (repo_id parent) path key_ids] else [])"
  proof (cases "key_ids = []")
    case True
    with rest t5 show ?thesis by simp
  next
    case False
    with rest have "impl_import_key env impl path key_ids w5 = (Inr (), w')" by simp
    from impl_import_key_trace [OF this] t5 False show ?thesis
      by (simp add: impl_def)
  qed
  show "\<exists>impl. impl_id impl = repo_id parent \<and> impl_repository impl = repository \<and>
         impl_gpg_validation impl = (snd (fst (Remote_gpg_keys env cfg w)) \<noteq> []) \<and>
         trace w' = trace w @ RemoteUpdate impl #
           (if snd (fst (Remote_gpg_keys env cfg w)) \<noteq> []
            then [RemoteImportKey repository (repo_id parent)
                    (os_path_join (get_working_dir env) [''pubring.gpg''])
                    (snd (fst (Remote_gpg_keys env cfg w)))]
            else [])"
    using t' g p by (intro exI [of _ impl]) (simp add: impl_def)
qed


theorem Remote_add_gpg_trust_witness:
  "snd (fst (Remote_gpg_keys example_env
     (example_config\<lparr>IMPORTER_CONFIG_KEY_GPG_KEYS := Some [''KEY:AAAA'', ''garbage'', ''KEY:BBBB'']\<rparr>)
     example_world)) = [''AAAA'', ''BBBB''] \<and>
   (\<exists>impl. impl_gpg_validation impl \<and>
      trace (snd (Remote_add example_env
        (example_config\<lparr>IMPORTER_CONFIG_KEY_GPG_KEYS := Some [''KEY:AAAA'', ''garbage'', ''KEY:BBBB'']\<rparr>)
        (example_main []) ''/shared/ostree/r1/content'' example_world)) =
        [RemoteUpdate impl,
         RemoteImportKey ''/shared/ostree/r1/content'' ''repo1'' ''/work/pubring.gpg''
           [''AAAA'', ''BBBB'']]) \<and>
   (\<exists>impl. \<not> impl_gpg_validation impl \<and>
      trace (snd (Remote_add example_env
        (example_config\<lparr>IMPORTER_CONFIG_KEY_GPG_KEYS := Some [''garbage'']\<rparr>)
        (example_main []) ''/shared/ostree/r1/content'' example_world)) = [RemoteUpdate impl])"
proof -
  let ?k = "example_config\<lparr>IMPORTER_CONFIG_KEY_GPG_KEYS := Some [''KEY:AAAA'', ''garbage'', ''KEY:BBBB'']\<rparr>"
  let ?g = "example_config\<lparr>IMPORTER_CONFIG_KEY_GPG_KEYS := Some [''garbage'']\<rparr>"
  let ?p = "example_main []"
  let ?repo = "''/shared/ostree/r1/content''"
  let ?wk = "snd (Remote_add example_env ?k ?p ?repo example_world)"
  let ?wg = "snd (Remote_add example_env ?g ?p ?repo example_world)"
  have ids: "snd (fst (Remote_gpg_keys example_env ?k example_world)) = [''AAAA'', ''BBBB'']"
    using Remote_add_gpg_trust [THEN conjunct1, of example_env ?k example_world]
    by (simp add: import_all_def example_env_def example_world_def)
  have none: "snd (fst (Remote_gpg_keys example_env ?g example_world)) = []"
    by (simp add: Remote_gpg_keys_def Let_def import_all_def example_env_def example_world_def)
  have evals:
    "get_working_dir example_env = ''/work''" "repo_id ?p = ''repo1''" "trace example_world = []"
    "os_path_join ''/work'' [''pubring.gpg''] = ''/work/pubring.gpg''"
    by (simp_all add: example_env_def example_main_def example_world_def os_path_join_def
        join_step_def)
  have okk: "fst (Remote_add example_env ?k ?p ?repo example_world) = Inr ()"
    by (simp add: Remote_add_def Remote_gpg_keys_def Remote_ssl_key_path_def
        Remote_ssl_cert_path_def Remote_ssl_ca_path_def impl_update_def impl_import_key_def
        import_all_def Let_def log_call_def example_env_def example_config_def example_world_def)
  then have runk: "Remote_add example_env ?k ?p ?repo example_world = (Inr (), ?wk)"
    by (simp add: prod_eq_iff)
  have okg: "fst (Remote_add example_env ?g ?p ?repo example_world) = Inr ()"
    by (simp add: Remote_add_def Remote_gpg_keys_def Remote_ssl_key_path_def
        Remote_ssl_cert_path_def Remote_ssl_ca_path_def impl_update_def impl_import_key_def
        import_all_def Let_def log_call_def example_env_def example_config_def example_world_def)
  then have rung: "Remote_add example_env ?g ?p ?repo example_world = (Inr (), ?wg)"
    by (simp add: prod_eq_iff)
  from Remote_add_gpg_trust [THEN conjunct2, rule_format, OF runk]
  have k: "\<exists>impl. impl_gpg_validation impl \<and>
      trace ?wk = [RemoteUpdate impl,
         RemoteImportKey ?repo ''repo1'' ''/work/pubring.gpg'' [''AAAA'', ''BBBB'']]"
    unfolding ids evals by auto
  from Remote_add_gpg_trust [THEN conjunct2, rule_format, OF rung]
  have g: "\<exists>impl. \<not> impl_gpg_validation impl \<and> trace ?wg = [RemoteUpdate impl]"
    unfolding none evals by auto
  from ids k g show ?thesis by blast
qed

subsection \<open>Create: open, or create\<close>

text \<open>
  \<open>Create._init_repository\<close> answers every \<open>LibError\<close> of \<open>open\<close> with \<open>create\<close>; it does
  not look at the reason. Here \<open>open\<close> fails with \<open>Permission denied\<close>, which is not the
  absence of the repository: \<open>create\<close> is called all the same, it succeeds, the remote is
  registered and the step returns without an error.
\<close>

theorem Create_open_failure_other_reason_counterexample:
  "fst (Create_init_repository
     (example_env\<lparr>lib_open := (\<lambda>e p. (Some (LibError ''Permission denied''), e))\<rparr>)
     example_config (example_main []) ''/shared/ostree/r1/content'' example_world) = Inr () \<and>
   trace (snd (Create_init_repository
     (example_env\<lparr>lib_open := (\<lambda>e p. (Some (LibError ''Permission denied''), e))\<rparr>)
     example_config (example_main []) ''/shared/ostree/r1/content'' example_world)) =
     [RepositoryOpen ''/shared/ostree/r1/content'',
      RepositoryCreate ''/shared/ostree/r1/content'',
      RemoteUpdate
        \<lparr>impl_id = ''repo1'', impl_repository = ''/shared/ostree/r1/content'',
         impl_url = Some ''https://example/repo'', impl_ssl_key_path = None,
         impl_ssl_cert_path = None, impl_ssl_ca_path = None, impl_ssl_validation = False,
         impl_gpg_validation = False, impl_proxy_url = None\<rparr>]"
  by (simp add: Create_init_repository_def init_repository_body_def Remote_add_def
      Remote_gpg_keys_def Remote_ssl_key_path_def Remote_ssl_cert_path_def Remote_ssl_ca_path_def
      impl_update_def impl_import_key_def import_all_def ssl_validation_def proxy_url_def Let_def
      log_call_def example_env_def example_config_def example_world_def example_main_def)

text \<open>
  C3, as the code has it. When \<open>open\<close> raises a \<open>LibError\<close>, whatever its reason, \<open>create\<close>
  is called; when \<open>create\<close> returns, the step goes on to \<open>Remote.add\<close>; when \<open>create\<close> raises a
  \<open>LibError\<close>, the step raises \<open>OST0001\<close> with the path and the reason of \<open>create\<close>. When
  \<open>open\<close> raises an exception that is not a \<open>LibError\<close>, \<open>create\<close> is not called and that
  exception leaves the step as it is. When \<open>open\<close> returns, \<open>create\<close> is not called and the
  step goes on to \<open>Remote.add\<close>. Any \<open>LibError\<close> that leaves the body of the \<open>try\<close> becomes
  \<open>OST0001\<close> with the path and \<open>str(le)\<close>, and a body that returns makes the step return.
\<close>

theorem Create_init_repository_create_after_any_LibError:
  "(lib_open env (ext w) path = (Some (LibError le), e1) \<and> lib_create env e1 path = (None, e2) \<longrightarrow>
      init_repository_body env cfg parent path w =
        Remote_add env cfg parent path
          (w\<lparr>trace := trace w @ [RepositoryOpen path, RepositoryCreate path], ext := e2\<rparr>)) \<and>
   (lib_open env (ext w) path = (Some (LibError le), e1) \<and>
    lib_create env e1 path = (Some (LibError le2), e2) \<longrightarrow>
      Create_init_repository env cfg parent path w =
        (Inl (PulpCodedException OST0001 [(''path'', path), (''reason'', le2)]),
         w\<lparr>trace := trace w @ [RepositoryOpen path, RepositoryCreate path], ext := e2\<rparr>)) \<and>
   (lib_open env (ext w) path = (Some x, e1) \<and> (\<forall>m. x \<noteq> LibError m) \<longrightarrow>
      Create_init_repository env cfg parent path w =
        (Inl x, w\<lparr>trace := trace w @ [RepositoryOpen path], ext := e1\<rparr>)) \<and>
   (lib_open env (ext w) path = (None, e1) \<longrightarrow>
      init_repository_body env cfg parent path w =
        Remote_add env cfg parent path (w\<lparr>trace := trace w @ [RepositoryOpen path], ext := e1\<rparr>)) \<and>
   (init_repository_body env cfg parent path w = (Inl (LibError le), w1) \<longrightarrow>
      Create_init_repository env cfg parent path w =
        (Inl (PulpCodedException OST0001 [(''path'', path), (''reason'', le)]), w1)) \<and>
   (init_repository_body env cfg parent path w = (Inr (), w1) \<longrightarrow>
      Create_init_repository env cfg parent path w = (Inr (), w1))"
proof (intro conjI impI)
  assume "lib_open env (ext w) path = (Some (LibError le), e1) \<and> lib_create env e1 path = (None, e2)"
  then show "init_repository_body env cfg parent path w =
        Remote_add env cfg parent path
          (w\<lparr>trace := trace w @ [RepositoryOpen path, RepositoryCreate path], ext := e2\<rparr>)"
    by (simp add: init_repository_body_def Let_def log_call_def)
next
  assume "lib_open env (ext w) path = (Some (LibError le), e1) \<and>
    lib_create env e1 path = (Some (LibError le2), e2)"
  then show "Create_init_repository env cfg parent path w =
        (Inl (PulpCodedException OST0001 [(''path'', path), (''reason'', le2)]),
         w\<lparr>trace := trace w @ [RepositoryOpen path, RepositoryCreate path], ext := e2\<rparr>)"
    by (simp add: Create_init_repository_def init_repository_body_def Let_def log_call_def)
next
  assume "lib_open env (ext w) path = (Some x, e1) \<and> (\<forall>m. x \<noteq> LibError m)"
  then show "Create_init_repository env cfg parent path w =
        (Inl x, w\<lparr>trace := trace w @ [RepositoryOpen path], ext := e1\<rparr>)"
    by (cases x) (simp_all add: Create_init_repository_def init_repository_body_def Let_def log_call_def)
next
  assume "lib_open env (ext w) path = (None, e1)"
  then show "init_repository_body env cfg parent path w =
        Remote_add env cfg parent path (w\<lparr>trace := trace w @ [RepositoryOpen path], ext := e1\<rparr>)"
    by (simp add: init_repository_body_def Let_def log_call_def)
next
  assume "init_repository_body env cfg parent path w = (Inl (LibError le), w1)"
  then show "Create_init_repository env cfg parent path w =
        (Inl (PulpCodedException OST0001 [(''path'', path), (''reason'', le)]), w1)"
    by (simp add: Create_init_repository_def)
next
  assume "init_repository_body env cfg parent path w = (Inr (), w1)"
  then show "Create_init_repository env cfg parent path w = (Inr (), w1)"
    by (simp add: Create_init_repository_def)
qed

theorem Create_init_repository_create_after_any_LibError_witness:
  "Create_init_repository
     (example_env\<lparr>lib_open := (\<lambda>e p. (Some (LibError ''Permission denied''), e)),
                   lib_create := (\<lambda>e p. (Some (LibError ''File exists''), e))\<rparr>)
     example_config (example_main []) ''/shared/ostree/r1/content'' example_world =
     (Inl (PulpCodedException OST0001
        [(''path'', ''/shared/ostree/r1/content''), (''reason'', ''File exists'')]),
      example_world\<lparr>trace := [RepositoryOpen ''/shared/ostree/r1/content'',
                               RepositoryCreate ''/shared/ostree/r1/content'']\<rparr>) \<and>
   Create_init_repository
     (example_env\<lparr>lib_open := (\<lambda>e p. (Some (OtherError ''MemoryError''), e))\<rparr>)
     example_config (example_main []) ''/shared/ostree/r1/content'' example_world =
     (Inl (OtherError ''MemoryError''),
      example_world\<lparr>trace := [RepositoryOpen ''/shared/ostree/r1/content'']\<rparr>) \<and>
   init_repository_body
     (example_env\<lparr>lib_open := (\<lambda>e p. (Some (LibError ''Permission denied''), e))\<rparr>)
     example_config (example_main []) ''/shared/ostree/r1/content'' example_world =
     Remote_add (example_env\<lparr>lib_open := (\<lambda>e p. (Some (LibError ''Permission denied''), e))\<rparr>)
       example_config (example_main []) ''/shared/ostree/r1/content''
       (example_world\<lparr>trace := [RepositoryOpen ''/shared/ostree/r1/content'',
                                RepositoryCreate ''/shared/ostree/r1/content'']\<rparr>)"
proof -
  let ?path = "''/shared/ostree/r1/content''"
  let ?e1 = "example_env\<lparr>lib_open := (\<lambda>e p. (Some (LibError ''Permission denied''), e)),
                   lib_create := (\<lambda>e p. (Some (LibError ''File exists''), e))\<rparr>"
  let ?e2 = "example_env\<lparr>lib_open := (\<lambda>e p. (Some (OtherError ''MemoryError''), e))\<rparr>"
  let ?e3 = "example_env\<lparr>lib_open := (\<lambda>e p. (Some (LibError ''Permission denied''), e))\<rparr>"
  have h1: "lib_open ?e1 (ext example_world) ?path = (Some (LibError ''Permission denied''), []) \<and>
      lib_create ?e1 [] ?path = (Some (LibError ''File exists''), [])"
    by (simp add: example_world_def)
  have h2: "lib_open ?e2 (ext example_world) ?path = (Some (OtherError ''MemoryError''), []) \<and>
      (\<forall>m. OtherError ''MemoryError'' \<noteq> LibError m)"
    by (simp add: example_world_def)
  have h3: "lib_open ?e3 (ext example_world) ?path = (Some (LibError ''Permission denied''), []) \<and>
      lib_create ?e3 [] ?path = (None, [])"
    by (simp add: example_world_def example_env_def)
  note t = Create_init_repository_create_after_any_LibError
  from t [THEN conjunct2, THEN conjunct1, rule_format, OF h1, of example_config "example_main []"]
    t [THEN conjunct2, THEN conjunct2, THEN conjunct1, rule_format, OF h2, of example_config "example_main []"]
    t [THEN conjunct1, rule_format, OF h3, of example_config "example_main []"]
  show ?thesis
    by (simp add: example_world_def)
qed

subsection \<open>Clean: deleting the remote\<close>

text \<open>
  \<open>Clean.process_main\<close> makes one call to delete the remote \<open>repo_id\<close> of the mirror. A
  \<open>LibError\<close> of that call is raised as \<open>OST0003\<close> with \<open>id=repo_id\<close> and \<open>reason=str(le)\<close>;
  when the call returns, the step returns. Whether the step is run after another step has
  raised is for the step host to decide, which the file does not contain.
\<close>

lemma Clean_process_main_LibError:
  "lib_remote_delete env (ext w) (storage_path parent) (repo_id parent) = (Some (LibError le), e1) \<Longrightarrow>
   Clean_process_main env parent w =
     (Inl (PulpCodedException OST0003 [(''id'', repo_id parent), (''reason'', le)]),
      w\<lparr>trace := trace w @ [RemoteDelete (storage_path parent) (repo_id parent)], ext := e1\<rparr>)"
  by (simp add: Clean_process_main_def Let_def log_call_def)

lemma Clean_process_main_returns:
  "lib_remote_delete env (ext w) (storage_path parent) (repo_id parent) = (None, e1) \<Longrightarrow>
   Clean_process_main env parent w =
     (Inr (), w\<lparr>trace := trace w @ [RemoteDelete (storage_path parent) (repo_id parent)], ext := e1\<rparr>)"
  by (simp add: Clean_process_main_def Let_def log_call_def)

end
